theory Spec2Isabelle
  imports Main
begin

section \<open>The Exabeam MCP server (src/exabeam-mcp-server.js)\<close>

text \<open>
  The server is one JavaScript class. Its constructor reads three environment variables,
  \<open>authenticate\<close> fetches a bearer token, the tool-call handler of \<open>setupHandlers\<close>
  dispatches on the tool name, and five handlers build one HTTP request each. The model
  below follows the source function by function. What the source gets from its runtime
  (JavaScript values and coercions, \<open>JSON.stringify\<close>, \<open>Date\<close>, the HTTP client, the clock,
  the host's time zone) is modelled first, as far as the source uses it.
\<close>

subsection \<open>JavaScript values\<close>

text \<open>
  Tool arguments and response bodies are JSON values; \<open>JUndefined\<close> is the value of a
  property that is not there, \<open>JFun f\<close> is a built-in function of the runtime named \<open>f\<close>
  (a member lookup can reach the ones on \<open>Object.prototype\<close>). Numbers are integers: the
  model covers integral numbers. The floating-point arithmetic of the source is exact on
  them up to \<open>2^53\<close>, which is beyond every time value.
\<close>

datatype jsval = JUndefined | JNull | JBool bool | JNum int | JStr string
  | JArr "jsval list" | JObj "(string \<times> jsval) list" | JFun string

text \<open>An own-property read of an object given by its properties in order.\<close>

definition get :: "(string \<times> jsval) list \<Rightarrow> string \<Rightarrow> jsval" where
  "get kvs k = (case map_of kvs k of None \<Rightarrow> JUndefined | Some v \<Rightarrow> v)"

text \<open>\<open>{...obj, k: v}\<close>: the property keeps its place when it is there, and is added last otherwise.\<close>

fun put :: "('k \<times> 'v) list \<Rightarrow> 'k \<Rightarrow> 'v \<Rightarrow> ('k \<times> 'v) list" where
  "put [] k v = [(k, v)]"
| "put ((k', v') # kvs) k v = (if k' = k then (k, v) # kvs else (k', v') # put kvs k v)"

text \<open>A destructuring default \<open>{ x = d }\<close> applies exactly when the property is \<open>undefined\<close>.\<close>

definition default_to :: "jsval \<Rightarrow> jsval \<Rightarrow> jsval" where
  "default_to d v = (if v = JUndefined then d else v)"

text \<open>Truthiness, as \<open>!x\<close> and \<open>x || y\<close> test it.\<close>

fun truthy :: "jsval \<Rightarrow> bool" where
  "truthy JUndefined = False"
| "truthy JNull = False"
| "truthy (JBool b) = b"
| "truthy (JNum n) = (n \<noteq> 0)"
| "truthy (JStr s) = (s \<noteq> [])"
| "truthy (JArr xs) = True"
| "truthy (JObj kvs) = True"
| "truthy (JFun f) = True"

definition js_or :: "jsval \<Rightarrow> jsval \<Rightarrow> jsval" where
  "js_or a b = (if truthy a then a else b)"

text \<open>Decimal digits of a natural number.\<close>

function show_nat :: "nat \<Rightarrow> string" where
  "show_nat n =
     (if n < 10 then [''0123456789'' ! n]
      else show_nat (n div 10) @ [''0123456789'' ! (n mod 10)])"
  by pat_completeness auto
termination
  by (relation "measure id") auto

declare show_nat.simps [simp del]

definition show_int :: "int \<Rightarrow> string" where
  "show_int n = (if n < 0 then ''-'' @ show_nat (nat (- n)) else show_nat (nat n))"

text \<open>
  \<open>ToString\<close>, the coercion a template literal \<open>`${v}`\<close> applies: a number is written
  in decimal digits (as JavaScript writes an integer below \<open>10^21\<close>), and an array
  joins its elements with commas, \<open>null\<close> and \<open>undefined\<close> elements as empty strings.
\<close>

fun ToString :: "jsval \<Rightarrow> string"
and join_elems :: "jsval list \<Rightarrow> string" where
  "ToString JUndefined = ''undefined''"
| "ToString JNull = ''null''"
| "ToString (JBool b) = (if b then ''true'' else ''false'')"
| "ToString (JNum n) = show_int n"
| "ToString (JStr s) = s"
| "ToString (JArr xs) = join_elems xs"
| "ToString (JObj kvs) = ''[object Object]''"
| "ToString (JFun f) = ''function '' @ f @ ''() { [native code] }''"
| "join_elems [] = []"
| "join_elems [x] = (if x = JUndefined \<or> x = JNull then [] else ToString x)"
| "join_elems (x # y # ys) =
     (if x = JUndefined \<or> x = JNull then [] else ToString x) @ '','' @ join_elems (y # ys)"

text \<open>
  \<open>ToNumber\<close>, the coercion of the operands of \<open>-\<close>; \<open>None\<close> is \<open>NaN\<close>. A string is read
  as a number when, white space trimmed, it is empty (zero) or an optionally signed run of
  decimal digits; every other string is \<open>NaN\<close> here (the integer model has no fractions,
  exponents or radix prefixes).
\<close>

definition is_space :: "char \<Rightarrow> bool" where
  "is_space c = (c \<in> set [CHR 0x20, CHR 0x09, CHR 0x0A, CHR 0x0B, CHR 0x0C, CHR 0x0D])"

definition is_digit :: "char \<Rightarrow> bool" where
  "is_digit c = (c \<in> set ''0123456789'')"

definition digits_value :: "string \<Rightarrow> int" where
  "digits_value s = foldl (\<lambda>a c. 10 * a + (of_char c - 48)) 0 s"

definition unsigned_number :: "string \<Rightarrow> int option" where
  "unsigned_number s = (if s \<noteq> [] \<and> list_all is_digit s then Some (digits_value s) else None)"

definition StringToNumber :: "string \<Rightarrow> int option" where
  "StringToNumber s =
     (case rev (dropWhile is_space (rev (dropWhile is_space s))) of
        [] \<Rightarrow> Some 0
      | c # cs \<Rightarrow>
          if c = CHR ''-'' then map_option uminus (unsigned_number cs)
          else if c = CHR ''+'' then unsigned_number cs
          else unsigned_number (c # cs))"

fun ToNumber :: "jsval \<Rightarrow> int option" where
  "ToNumber JUndefined = None"
| "ToNumber JNull = Some 0"
| "ToNumber (JBool b) = Some (if b then 1 else 0)"
| "ToNumber (JNum n) = Some n"
| "ToNumber (JStr s) = StringToNumber s"
| "ToNumber (JArr xs) = StringToNumber (ToString (JArr xs))"
| "ToNumber (JObj kvs) = None"
| "ToNumber (JFun f) = None"

subsection \<open>Errors\<close>

text \<open>
  A thrown value is an \<open>Error\<close> with a message. The HTTP client rejects with an error that
  also carries the response, when the server sent one.
\<close>

record response =
  status :: int
  statusText :: string
  data :: jsval

datatype js_error = Error string | TypeError string | RangeError string
  | AxiosError string "response option"

fun message :: "js_error \<Rightarrow> string" where
  "message (Error m) = m"
| "message (TypeError m) = m"
| "message (RangeError m) = m"
| "message (AxiosError m r) = m"

text \<open>\<open>error.response\<close>: only the HTTP client's errors have one.\<close>

fun error_response :: "js_error \<Rightarrow> response option" where
  "error_response (AxiosError m r) = r"
| "error_response (Error m) = None"
| "error_response (TypeError m) = None"
| "error_response (RangeError m) = None"

text \<open>
  The member read \<open>v.k\<close> for the two keys the source reads from a response body
  (\<open>access_token\<close>, \<open>error_description\<close>), which no built-in prototype defines: it throws on
  \<open>undefined\<close> and \<open>null\<close>, reads an object's own property, and is \<open>undefined\<close> on every
  other value. The message of the \<open>TypeError\<close> is the one of Node.js.
\<close>

fun get_prop :: "jsval \<Rightarrow> string \<Rightarrow> js_error + jsval" where
  "get_prop JUndefined k =
     Inl (TypeError (''Cannot read properties of undefined (reading '' @ [CHR 0x27] @ k @ [CHR 0x27] @ '')''))"
| "get_prop JNull k =
     Inl (TypeError (''Cannot read properties of null (reading '' @ [CHR 0x27] @ k @ [CHR 0x27] @ '')''))"
| "get_prop (JObj kvs) k = Inr (get kvs k)"
| "get_prop (JBool b) k = Inr JUndefined"
| "get_prop (JNum n) k = Inr JUndefined"
| "get_prop (JStr s) k = Inr JUndefined"
| "get_prop (JArr xs) k = Inr JUndefined"
| "get_prop (JFun f) k = Inr JUndefined"

text \<open>The optional chain \<open>v?.k\<close>, for the same keys.\<close>

definition opt_prop :: "jsval \<Rightarrow> string \<Rightarrow> jsval" where
  "opt_prop v k = (case get_prop v k of Inl e \<Rightarrow> JUndefined | Inr x \<Rightarrow> x)"

subsection \<open>JSON.stringify(value, null, 2)\<close>

definition hex_digit :: "nat \<Rightarrow> char" where
  "hex_digit n = ''0123456789abcdef'' ! n"

definition quote_char :: "char \<Rightarrow> string" where
  "quote_char c =
     (if c = CHR 0x22 then [CHR 0x5C, CHR 0x22]
      else if c = CHR 0x5C then [CHR 0x5C, CHR 0x5C]
      else if c = CHR 0x08 then [CHR 0x5C, CHR ''b'']
      else if c = CHR 0x09 then [CHR 0x5C, CHR ''t'']
      else if c = CHR 0x0A then [CHR 0x5C, CHR ''n'']
      else if c = CHR 0x0C then [CHR 0x5C, CHR ''f'']
      else if c = CHR 0x0D then [CHR 0x5C, CHR ''r'']
      else if (of_char c :: nat) < 32
        then [CHR 0x5C, CHR ''u'', CHR ''0'', CHR ''0'',
              hex_digit (of_char c div 16), hex_digit (of_char c mod 16)]
      else [c])"

definition QuoteJSONString :: "string \<Rightarrow> string" where
  "QuoteJSONString s = [CHR 0x22] @ concat (map quote_char s) @ [CHR 0x22]"

fun join :: "string \<Rightarrow> string list \<Rightarrow> string" where
  "join sep [] = []"
| "join sep [x] = x"
| "join sep (x # y # ys) = x @ sep @ join sep (y # ys)"

text \<open>
  The first argument is the current indentation. A property whose value is \<open>undefined\<close> or
  a function is left out of an object, such an element of an array is written \<open>null\<close>, and
  at the top the result is \<open>undefined\<close> (\<open>None\<close>).
\<close>

fun stringify :: "string \<Rightarrow> jsval \<Rightarrow> string option"
and stringify_elems :: "string \<Rightarrow> jsval list \<Rightarrow> string list"
and stringify_props :: "string \<Rightarrow> (string \<times> jsval) list \<Rightarrow> string list" where
  "stringify ind JUndefined = None"
| "stringify ind (JFun f) = None"
| "stringify ind JNull = Some ''null''"
| "stringify ind (JBool b) = Some (if b then ''true'' else ''false'')"
| "stringify ind (JNum n) = Some (show_int n)"
| "stringify ind (JStr s) = Some (QuoteJSONString s)"
| "stringify ind (JArr xs) =
     Some (if xs = [] then ''[]''
           else ''['' @ [CHR 0x0A] @ (ind @ ''  '')
             @ join ('','' @ [CHR 0x0A] @ (ind @ ''  '')) (stringify_elems (ind @ ''  '') xs)
             @ [CHR 0x0A] @ ind @ '']'')"
| "stringify ind (JObj kvs) =
     Some (if stringify_props (ind @ ''  '') kvs = [] then ''{}''
           else ''{'' @ [CHR 0x0A] @ (ind @ ''  '')
             @ join ('','' @ [CHR 0x0A] @ (ind @ ''  '')) (stringify_props (ind @ ''  '') kvs)
             @ [CHR 0x0A] @ ind @ ''}'')"
| "stringify_elems ind [] = []"
| "stringify_elems ind (x # xs) =
     (case stringify ind x of None \<Rightarrow> ''null'' | Some s \<Rightarrow> s) # stringify_elems ind xs"
| "stringify_props ind [] = []"
| "stringify_props ind ((k, v) # kvs) =
     (case stringify ind v of
        None \<Rightarrow> stringify_props ind kvs
      | Some s \<Rightarrow> (QuoteJSONString k @ '': '' @ s) # stringify_props ind kvs)"

definition JSON_stringify :: "jsval \<Rightarrow> jsval" where
  "JSON_stringify v = (case stringify [] v of None \<Rightarrow> JUndefined | Some s \<Rightarrow> JStr s)"

subsection \<open>Dates\<close>

text \<open>
  A time value is a number of milliseconds since the epoch, or \<open>NaN\<close> (\<open>None\<close>) for an
  invalid date. The functions are those of the ECMAScript specification, on integers.
\<close>

definition msPerDay :: int where "msPerDay = 86400000"
definition msPerHour :: int where "msPerHour = 3600000"
definition msPerMinute :: int where "msPerMinute = 60000"
definition msPerSecond :: int where "msPerSecond = 1000"

definition Day :: "int \<Rightarrow> int" where "Day t = t div msPerDay"
definition TimeWithinDay :: "int \<Rightarrow> int" where "TimeWithinDay t = t mod msPerDay"
definition HourFromTime :: "int \<Rightarrow> int" where "HourFromTime t = (t div msPerHour) mod 24"
definition MinFromTime :: "int \<Rightarrow> int" where "MinFromTime t = (t div msPerMinute) mod 60"
definition SecFromTime :: "int \<Rightarrow> int" where "SecFromTime t = (t div msPerSecond) mod 60"
definition msFromTime :: "int \<Rightarrow> int" where "msFromTime t = t mod msPerSecond"

definition MakeTime :: "int \<Rightarrow> int \<Rightarrow> int \<Rightarrow> int \<Rightarrow> int" where
  "MakeTime h m s ms = h * msPerHour + m * msPerMinute + s * msPerSecond + ms"

definition MakeDate :: "int \<Rightarrow> int \<Rightarrow> int" where
  "MakeDate day time = day * msPerDay + time"

definition TimeClip :: "int \<Rightarrow> int option" where
  "TimeClip t = (if \<bar>t\<bar> > 8640000000000000 then None else Some t)"

text \<open>
  Year, month (1 to 12) and day of the month of a day number, in the proleptic Gregorian
  calendar. The 400-year cycle (\<open>era\<close>) has 146097 days and is counted from 1 March of
  year 0; \<open>doe\<close> is the day of the cycle, \<open>yoe\<close> the year of the cycle, \<open>doy\<close> the day of
  the year that starts in March, and \<open>mp\<close> its month, from March as 0.
\<close>

definition civil_of_month :: "int \<Rightarrow> int \<Rightarrow> int \<Rightarrow> int \<Rightarrow> int \<times> int \<times> int" where
  "civil_of_month era yoe doy mp =
     (yoe + era * 400 + (if mp < 10 then 0 else 1),
      if mp < 10 then mp + 3 else mp - 9,
      doy - (153 * mp + 2) div 5 + 1)"

definition civil_of_doy :: "int \<Rightarrow> int \<Rightarrow> int \<Rightarrow> int \<times> int \<times> int" where
  "civil_of_doy era yoe doy = civil_of_month era yoe doy ((5 * doy + 2) div 153)"

definition civil_of_yoe :: "int \<Rightarrow> int \<Rightarrow> int \<Rightarrow> int \<times> int \<times> int" where
  "civil_of_yoe era doe yoe = civil_of_doy era yoe (doe - (365 * yoe + yoe div 4 - yoe div 100))"

definition civil_of_doe :: "int \<Rightarrow> int \<Rightarrow> int \<times> int \<times> int" where
  "civil_of_doe era doe =
     civil_of_yoe era doe ((doe - doe div 1460 + doe div 36524 - doe div 146096) div 365)"

definition civil_from_days :: "int \<Rightarrow> int \<times> int \<times> int" where
  "civil_from_days z = civil_of_doe ((z + 719468) div 146097) ((z + 719468) mod 146097)"

definition pad :: "nat \<Rightarrow> int \<Rightarrow> string" where
  "pad w n = replicate (w - length (show_nat (nat n))) (CHR ''0'') @ show_nat (nat n)"

definition year_string :: "int \<Rightarrow> string" where
  "year_string y =
     (if 0 \<le> y \<and> y \<le> 9999 then pad 4 y
      else (if y < 0 then ''-'' else ''+'') @ pad 6 \<bar>y\<bar>)"

text \<open>The time values: at most 100 000 000 days from the epoch, either way.\<close>

definition time_value :: "int \<Rightarrow> bool" where
  "time_value t = (\<bar>t\<bar> \<le> 8640000000000000)"

definition YearFromTime :: "int \<Rightarrow> int" where
  "YearFromTime t = (case civil_from_days (Day t) of (y, m, d) \<Rightarrow> y)"

definition MonthFromTime :: "int \<Rightarrow> int" where
  "MonthFromTime t = (case civil_from_days (Day t) of (y, m, d) \<Rightarrow> m - 1)"

definition DateFromTime :: "int \<Rightarrow> int" where
  "DateFromTime t = (case civil_from_days (Day t) of (y, m, d) \<Rightarrow> d)"

text \<open>The text \<open>toISOString\<close> gives for a valid time value: \<open>YYYY-MM-DDTHH:mm:ss.sssZ\<close>.\<close>

definition date_string :: "int \<Rightarrow> int \<Rightarrow> int \<Rightarrow> string" where
  "date_string y m d = year_string y @ ''-'' @ pad 2 m @ ''-'' @ pad 2 d"

definition time_string :: "int \<Rightarrow> int \<Rightarrow> int \<Rightarrow> int \<Rightarrow> string" where
  "time_string h m s ms = pad 2 h @ '':'' @ pad 2 m @ '':'' @ pad 2 s @ ''.'' @ pad 3 ms"

definition iso8601 :: "int \<Rightarrow> string" where
  "iso8601 t =
     date_string (YearFromTime t) (MonthFromTime t + 1) (DateFromTime t) @ ''T''
     @ time_string (HourFromTime t) (MinFromTime t) (SecFromTime t) (msFromTime t) @ ''Z''"

definition toISOString :: "int option \<Rightarrow> js_error + string" where
  "toISOString d =
     (case d of None \<Rightarrow> Inl (RangeError ''Invalid time value'') | Some t \<Rightarrow> Inr (iso8601 t))"

text \<open>Subtraction of numbers; \<open>NaN\<close> absorbs.\<close>

definition js_minus :: "int option \<Rightarrow> int option \<Rightarrow> int option" where
  "js_minus a b = (case a of None \<Rightarrow> None | Some x \<Rightarrow> map_option (\<lambda>y. x - y) b)"

text \<open>
  Day number of a calendar date (month 1 to 12), the inverse of \<open>civil_from_days\<close> (the
  year that starts in March is counted first). \<open>MakeDay\<close> takes the month from 0, as
  JavaScript counts it, and carries months outside 0 to 11 into the year.
\<close>

definition days_of_march_year :: "int \<Rightarrow> int \<Rightarrow> int" where
  "days_of_march_year y doy =
     (y div 400) * 146097
     + ((y mod 400) * 365 + (y mod 400) div 4 - (y mod 400) div 100 + doy) - 719468"

definition days_from_civil :: "int \<Rightarrow> int \<Rightarrow> int \<Rightarrow> int" where
  "days_from_civil y m d =
     days_of_march_year (if m \<le> 2 then y - 1 else y)
       ((153 * (if m > 2 then m - 3 else m + 9) + 2) div 5 + d - 1)"

definition MakeDay :: "int \<Rightarrow> int \<Rightarrow> int \<Rightarrow> int" where
  "MakeDay year month date =
     days_from_civil (year + month div 12) (month mod 12 + 1) 1 + date - 1"

subsection \<open>The environment of a call\<close>

text \<open>
  An HTTP request as the source hands it to the client: \<open>params\<close> and \<open>payload\<close> are
  \<open>undefined\<close> where the source gives none.
\<close>

record request =
  "method" :: string
  url :: string
  params :: jsval
  payload :: jsval
  headers :: "(string \<times> string) list"

text \<open>
  The client resolves with the body of the response (\<open>response.data\<close>, all the source
  reads of it), or rejects with a message and the response, when there is one.
\<close>

datatype axios_outcome = Resolved jsval | Rejected string "response option"

text \<open>
  The world outside: what the HTTP client answers to each request, the successive readings
  of the clock in milliseconds (\<open>clock w 0\<close> is the first reading a handler takes), and the
  host's time zone as the offset of local time from UTC, at a UTC time and at a local time.
\<close>

record world =
  axios :: "request \<Rightarrow> axios_outcome"
  clock :: "nat \<Rightarrow> int"
  LocalTZA_utc :: "int \<Rightarrow> int"
  LocalTZA_local :: "int \<Rightarrow> int"

text \<open>What a call does, in order: the HTTP requests it issues and the handler it enters.\<close>

datatype event = Http request | Invoke string

definition await :: "world \<Rightarrow> request \<Rightarrow> js_error + jsval" where
  "await w req =
     (case axios w req of Resolved d \<Rightarrow> Inr d | Rejected m r \<Rightarrow> Inl (AxiosError m r))"

text \<open>
  \<open>new Date(v)\<close> clips the number it is given; \<open>new Date()\<close> takes a reading of the clock,
  which is a time value, so that clipping leaves it as it is.
\<close>

definition new_Date :: "int \<Rightarrow> int option" where
  "new_Date v = TimeClip v"

definition LocalTime :: "world \<Rightarrow> int \<Rightarrow> int" where
  "LocalTime w t = t + LocalTZA_utc w t"

definition UTC :: "world \<Rightarrow> int \<Rightarrow> int" where
  "UTC w t = t - LocalTZA_local w t"

definition getHours :: "world \<Rightarrow> int option \<Rightarrow> int option" where
  "getHours w d = map_option (\<lambda>t. HourFromTime (LocalTime w t)) d"

definition setHours :: "world \<Rightarrow> int option \<Rightarrow> int option \<Rightarrow> int option" where
  "setHours w d hour =
     (case d of None \<Rightarrow> None
      | Some t \<Rightarrow>
         (case hour of None \<Rightarrow> None
          | Some h \<Rightarrow>
             (let lt = LocalTime w t
              in TimeClip (UTC w (MakeDate (Day lt)
                   (MakeTime h (MinFromTime lt) (SecFromTime lt) (msFromTime lt)))))))"

definition getDate :: "world \<Rightarrow> int option \<Rightarrow> int option" where
  "getDate w d = map_option (\<lambda>t. DateFromTime (LocalTime w t)) d"

definition setDate :: "world \<Rightarrow> int option \<Rightarrow> int option \<Rightarrow> int option" where
  "setDate w d date =
     (case d of None \<Rightarrow> None
      | Some t \<Rightarrow>
         (case date of None \<Rightarrow> None
          | Some dt \<Rightarrow>
             (let lt = LocalTime w t
              in TimeClip (UTC w (MakeDate (MakeDay (YearFromTime lt) (MonthFromTime lt) dt)
                   (TimeWithinDay lt))))))"

text \<open>
  The \<open>arguments\<close> of a tool call: an object, or nothing at all when the request has no
  \<open>arguments\<close> member. Destructuring \<open>undefined\<close> throws (the message is the one of
  Node.js and names the first property of the pattern).
\<close>

type_synonym args = "(string \<times> jsval) list option"

definition destructure :: "args \<Rightarrow> string \<Rightarrow> js_error + (string \<times> jsval) list" where
  "destructure args first =
     (case args of
        None \<Rightarrow> Inl (TypeError (''Cannot destructure property '' @ [CHR 0x27] @ first @ [CHR 0x27]
                  @ '' of '' @ [CHR 0x27] @ ''args'' @ [CHR 0x27] @ '' as it is undefined.''))
      | Some kvs \<Rightarrow> Inr kvs)"

text \<open>
  \<open>obj[key]\<close> on an object literal: the key is coerced to a string, and a name that is not
  an own property is looked up on \<open>Object.prototype\<close>, whose members every object literal
  inherits (\<open>__proto__\<close> is \<open>Object.prototype\<close> itself, an object without enumerable
  properties of its own).
\<close>

definition Object_prototype :: "(string \<times> jsval) list" where
  "Object_prototype =
     [(''constructor'', JFun ''Object''),
      (''__defineGetter__'', JFun ''__defineGetter__''),
      (''__defineSetter__'', JFun ''__defineSetter__''),
      (''hasOwnProperty'', JFun ''hasOwnProperty''),
      (''__lookupGetter__'', JFun ''__lookupGetter__''),
      (''__lookupSetter__'', JFun ''__lookupSetter__''),
      (''isPrototypeOf'', JFun ''isPrototypeOf''),
      (''propertyIsEnumerable'', JFun ''propertyIsEnumerable''),
      (''toString'', JFun ''toString''),
      (''valueOf'', JFun ''valueOf''),
      (''__proto__'', JObj []),
      (''toLocaleString'', JFun ''toLocaleString'')]"

definition member :: "(string \<times> jsval) list \<Rightarrow> jsval \<Rightarrow> jsval" where
  "member obj key =
     (case map_of obj (ToString key) of
        Some v \<Rightarrow> v
      | None \<Rightarrow> get Object_prototype (ToString key))"

subsection \<open>Configuration: the constructor\<close>

text \<open>A variable of the process environment is a string, or is not set.\<close>

record env =
  EXABEAM_URL :: "string option"
  EXABEAM_API_KEY :: "string option"
  EXABEAM_API_SECRET :: "string option"

record exabeamConfig =
  baseUrl :: "string option"
  apiKey :: "string option"
  apiSecret :: "string option"

definition env_val :: "string option \<Rightarrow> jsval" where
  "env_val v = (case v of None \<Rightarrow> JUndefined | Some s \<Rightarrow> JStr s)"

text \<open>A variable is present when it is set and not empty: what \<open>!v\<close> tests.\<close>

definition present :: "string option \<Rightarrow> bool" where
  "present v = (case v of None \<Rightarrow> False | Some s \<Rightarrow> s \<noteq> [])"

text \<open>
  The constructor throws before \<open>setupHandlers\<close> registers a handler; the module calls
  \<open>run\<close> only on the object the constructor returned.
\<close>

definition constructor :: "env \<Rightarrow> js_error + exabeamConfig" where
  "constructor e =
     (let exabeamConfig = \<lparr>baseUrl = EXABEAM_URL e, apiKey = EXABEAM_API_KEY e,
                            apiSecret = EXABEAM_API_SECRET e\<rparr>
      in if \<not> truthy (env_val (baseUrl exabeamConfig))
           then Inl (Error ''EXABEAM_URL environment variable is required'')
         else if \<not> truthy (env_val (apiKey exabeamConfig))
                 \<or> \<not> truthy (env_val (apiSecret exabeamConfig))
           then Inl (Error ''Both EXABEAM_API_KEY and EXABEAM_API_SECRET environment variables are required'')
         else Inr exabeamConfig)"

subsection \<open>authenticate\<close>

definition authUrl :: string where
  "authUrl = ''https://api.us-west.exabeam.cloud/auth/v1/token''"

definition auth_request :: "exabeamConfig \<Rightarrow> request" where
  "auth_request cfg =
     \<lparr>method = ''POST'', url = authUrl, params = JUndefined,
      payload = JObj [(''grant_type'', JStr ''client_credentials''),
                      (''client_id'', env_val (apiKey cfg)),
                      (''client_secret'', env_val (apiSecret cfg))],
      headers = [(''Accept'', ''application/json''), (''Content-Type'', ''application/json'')]\<rparr>"

text \<open>
  Whatever the \<open>try\<close> block throws (the client's rejection, or the \<open>TypeError\<close> of reading
  \<open>access_token\<close> from a body that is \<open>null\<close> or \<open>undefined\<close>) is caught and thrown again
  as an \<open>Error\<close> whose message is
  \<open>`Authentication failed: ${error.response?.data?.error_description || error.message}`\<close>.
  The line the \<open>catch\<close> block writes to the console is not modelled.
\<close>

definition authentication_failed :: "js_error \<Rightarrow> js_error" where
  "authentication_failed error =
     Error (''Authentication failed: ''
       @ ToString (js_or
           (case error_response error of
              None \<Rightarrow> JUndefined
            | Some r \<Rightarrow> opt_prop (data r) ''error_description'')
           (JStr (message error))))"

definition authenticate :: "world \<Rightarrow> exabeamConfig \<Rightarrow> (js_error + jsval) \<times> event list" where
  "authenticate w cfg =
     ((case await w (auth_request cfg) of
         Inl error \<Rightarrow> Inl (authentication_failed error)
       | Inr d \<Rightarrow>
          (case get_prop d ''access_token'' of
             Inl error \<Rightarrow> Inl (authentication_failed error)
           | Inr access_token \<Rightarrow> Inr access_token)),
      [Http (auth_request cfg)])"

subsection \<open>Tool results\<close>

record content_block =
  type :: string
  "text" :: jsval

record tool_result =
  content :: "content_block list"

definition text_result :: "jsval \<Rightarrow> tool_result" where
  "text_result t = \<lparr>content = [\<lparr>type = ''text'', text = t\<rparr>]\<rparr>"

text \<open>
  The end of four of the handlers: await the client, and return the body of the response
  as formatted JSON. A rejection is not caught here.
\<close>

definition respond :: "world \<Rightarrow> request \<Rightarrow> (js_error + tool_result) \<times> event list" where
  "respond w req =
     ((case await w req of
         Inl error \<Rightarrow> Inl error
       | Inr d \<Rightarrow> Inr (text_result (JSON_stringify d))),
      [Http req])"

definition apiBaseUrl :: string where
  "apiBaseUrl = ''https://api.eu.exabeam.cloud''"

subsection \<open>searchEvents\<close>

text \<open>
  The search parameters, in the order the object literal evaluates them. A default time is
  computed, and the clock read, only when the argument is falsy: \<open>startTime\<close> from the
  first reading, \<open>endTime\<close> from the next one.
\<close>

definition searchEvents_params :: "world \<Rightarrow> (string \<times> jsval) list \<Rightarrow> js_error + jsval" where
  "searchEvents_params w a =
     (let query = get a ''query'';
          startTime = get a ''startTime'';
          endTime = get a ''endTime'';
          limit = default_to (JNum 100) (get a ''limit'')
      in case (if truthy startTime then Inr (startTime, 0)
               else case toISOString (new_Date (clock w 0 - 24 * 60 * 60 * 1000)) of
                      Inl error \<Rightarrow> Inl error
                    | Inr s \<Rightarrow> Inr (JStr s, Suc 0)) of
           Inl error \<Rightarrow> Inl error
         | Inr (st, k) \<Rightarrow>
            (case (if truthy endTime then Inr endTime
                   else case toISOString (new_Date (clock w k)) of
                          Inl error \<Rightarrow> Inl error
                        | Inr s \<Rightarrow> Inr (JStr s)) of
               Inl error \<Rightarrow> Inl error
             | Inr et \<Rightarrow>
                Inr (JObj [(''filter'', js_or query (JStr [])),
                           (''fields'', JArr [JStr ''time'', JStr ''user'', JStr ''action'',
                                              JStr ''result'', JStr ''src_ip'', JStr ''dest_ip'']),
                           (''startTime'', st),
                           (''endTime'', et),
                           (''limit'', limit)])))"

definition searchEvents_request :: "jsval \<Rightarrow> (string \<times> string) list \<Rightarrow> request" where
  "searchEvents_request searchParams hdrs =
     \<lparr>method = ''POST'', url = apiBaseUrl @ ''/search/v2/events'', params = JUndefined,
      payload = searchParams,
      headers = put (put hdrs ''Content-Type'' ''application/json'') ''Accept'' ''application/json''\<rparr>"

text \<open>
  The text of the \<open>catch\<close> block:
  \<open>`Error: ${error.response?.status} - ${error.response?.statusText}\n\nDetails:
  ${JSON.stringify(error.response?.data || error.message, null, 2)}\n\nRequest sent:
  ${JSON.stringify(searchParams, null, 2)}`\<close>.
\<close>

definition search_error_text :: "js_error \<Rightarrow> jsval \<Rightarrow> string" where
  "search_error_text error searchParams =
     ''Error: ''
     @ (case error_response error of None \<Rightarrow> ''undefined'' | Some r \<Rightarrow> show_int (status r))
     @ '' - ''
     @ (case error_response error of None \<Rightarrow> ''undefined'' | Some r \<Rightarrow> statusText r)
     @ [CHR 0x0A, CHR 0x0A] @ ''Details: ''
     @ ToString (JSON_stringify
         (js_or (case error_response error of None \<Rightarrow> JUndefined | Some r \<Rightarrow> data r)
                (JStr (message error))))
     @ [CHR 0x0A, CHR 0x0A] @ ''Request sent: ''
     @ ToString (JSON_stringify searchParams)"

text \<open>
  Destructuring and the construction of the parameters stand before the \<open>try\<close> block, so
  what they throw leaves the handler; a rejection of the client is caught. The line the
  \<open>catch\<close> block writes to the console is not modelled.
\<close>

definition searchEvents ::
  "world \<Rightarrow> args \<Rightarrow> (string \<times> string) list \<Rightarrow> (js_error + tool_result) \<times> event list" where
  "searchEvents w args hdrs =
     (case destructure args ''query'' of
        Inl error \<Rightarrow> (Inl error, [])
      | Inr a \<Rightarrow>
         (case searchEvents_params w a of
            Inl error \<Rightarrow> (Inl error, [])
          | Inr searchParams \<Rightarrow>
             ((case await w (searchEvents_request searchParams hdrs) of
                 Inr d \<Rightarrow> Inr (text_result (JSON_stringify d))
               | Inl error \<Rightarrow> Inr (text_result (JStr (search_error_text error searchParams)))),
              [Http (searchEvents_request searchParams hdrs)])))"

subsection \<open>getUserTimeline\<close>

definition getUserTimeline_url :: "jsval \<Rightarrow> string" where
  "getUserTimeline_url username = apiBaseUrl @ ''/users/v1/'' @ ToString username @ ''/timeline''"

text \<open>
  \<open>endTime\<close> is the first reading of the clock and \<open>startTime\<close> the second, moved back by
  \<open>setDate(getDate() - days)\<close> in local time. The URL is built before the parameters;
  \<open>startTime.toISOString()\<close> is evaluated before \<open>endTime.toISOString()\<close>.
\<close>

definition getUserTimeline_request ::
  "world \<Rightarrow> args \<Rightarrow> (string \<times> string) list \<Rightarrow> js_error + request" where
  "getUserTimeline_request w args hdrs =
     (case destructure args ''username'' of
        Inl error \<Rightarrow> Inl error
      | Inr a \<Rightarrow>
         (let username = get a ''username'';
              days = default_to (JNum 7) (get a ''days'');
              endTime = new_Date (clock w 0);
              startTime = new_Date (clock w 1);
              startTime = setDate w startTime (js_minus (getDate w startTime) (ToNumber days))
          in case toISOString startTime of
               Inl error \<Rightarrow> Inl error
             | Inr st \<Rightarrow>
                (case toISOString endTime of
                   Inl error \<Rightarrow> Inl error
                 | Inr et \<Rightarrow>
                    Inr \<lparr>method = ''GET'', url = getUserTimeline_url username,
                         params = JObj [(''startTime'', JStr st), (''endTime'', JStr et)],
                         payload = JUndefined, headers = hdrs\<rparr>)))"

definition getUserTimeline ::
  "world \<Rightarrow> args \<Rightarrow> (string \<times> string) list \<Rightarrow> (js_error + tool_result) \<times> event list" where
  "getUserTimeline w args hdrs =
     (case getUserTimeline_request w args hdrs of
        Inl error \<Rightarrow> (Inl error, [])
      | Inr req \<Rightarrow> respond w req)"

subsection \<open>getNotableEvents\<close>

definition severityMap :: "(string \<times> jsval) list" where
  "severityMap = [(''low'', JNum 1), (''medium'', JNum 2), (''high'', JNum 3), (''critical'', JNum 4)]"

text \<open>
  \<open>endTime\<close> is the first reading of the clock and \<open>startTime\<close> the second, moved back by
  \<open>setHours(getHours() - hours)\<close> in local time.
\<close>

definition getNotableEvents_request ::
  "world \<Rightarrow> args \<Rightarrow> (string \<times> string) list \<Rightarrow> js_error + request" where
  "getNotableEvents_request w args hdrs =
     (case destructure args ''severity'' of
        Inl error \<Rightarrow> Inl error
      | Inr a \<Rightarrow>
         (let severity = default_to (JStr ''medium'') (get a ''severity'');
              hours = default_to (JNum 24) (get a ''hours'');
              endTime = new_Date (clock w 0);
              startTime = new_Date (clock w 1);
              startTime = setHours w startTime (js_minus (getHours w startTime) (ToNumber hours))
          in case toISOString startTime of
               Inl error \<Rightarrow> Inl error
             | Inr st \<Rightarrow>
                (case toISOString endTime of
                   Inl error \<Rightarrow> Inl error
                 | Inr et \<Rightarrow>
                    Inr \<lparr>method = ''GET'', url = apiBaseUrl @ ''/notable-events/v1/events'',
                         params = JObj [(''minSeverity'', member severityMap severity),
                                        (''startTime'', JStr st), (''endTime'', JStr et)],
                         payload = JUndefined, headers = hdrs\<rparr>)))"

definition getNotableEvents ::
  "world \<Rightarrow> args \<Rightarrow> (string \<times> string) list \<Rightarrow> (js_error + tool_result) \<times> event list" where
  "getNotableEvents w args hdrs =
     (case getNotableEvents_request w args hdrs of
        Inl error \<Rightarrow> (Inl error, [])
      | Inr req \<Rightarrow> respond w req)"

subsection \<open>getUserRiskScore\<close>

definition getUserRiskScore_url :: "jsval \<Rightarrow> string" where
  "getUserRiskScore_url username = apiBaseUrl @ ''/users/v1/'' @ ToString username @ ''/risk-score''"

definition getUserRiskScore_request ::
  "args \<Rightarrow> (string \<times> string) list \<Rightarrow> js_error + request" where
  "getUserRiskScore_request args hdrs =
     (case destructure args ''username'' of
        Inl error \<Rightarrow> Inl error
      | Inr a \<Rightarrow>
         Inr \<lparr>method = ''GET'', url = getUserRiskScore_url (get a ''username''),
              params = JUndefined, payload = JUndefined, headers = hdrs\<rparr>)"

definition getUserRiskScore ::
  "world \<Rightarrow> args \<Rightarrow> (string \<times> string) list \<Rightarrow> (js_error + tool_result) \<times> event list" where
  "getUserRiskScore w args hdrs =
     (case getUserRiskScore_request args hdrs of
        Inl error \<Rightarrow> (Inl error, [])
      | Inr req \<Rightarrow> respond w req)"

subsection \<open>searchAssets\<close>

text \<open>The payload: \<open>{ query, limit: 50 }\<close>, and \<open>assetType\<close> added when it is not \<open>'all'\<close>.\<close>

definition searchAssets_params :: "(string \<times> jsval) list \<Rightarrow> jsval" where
  "searchAssets_params a =
     (let query = get a ''query'';
          assetType = default_to (JStr ''all'') (get a ''assetType'');
          searchParams = [(''query'', query), (''limit'', JNum 50)]
      in JObj (if assetType \<noteq> JStr ''all''
               then put searchParams ''assetType'' assetType
               else searchParams))"

definition searchAssets_request ::
  "args \<Rightarrow> (string \<times> string) list \<Rightarrow> js_error + request" where
  "searchAssets_request args hdrs =
     (case destructure args ''query'' of
        Inl error \<Rightarrow> Inl error
      | Inr a \<Rightarrow>
         Inr \<lparr>method = ''POST'', url = apiBaseUrl @ ''/assets/v1/search'', params = JUndefined,
              payload = searchAssets_params a, headers = hdrs\<rparr>)"

definition searchAssets ::
  "world \<Rightarrow> args \<Rightarrow> (string \<times> string) list \<Rightarrow> (js_error + tool_result) \<times> event list" where
  "searchAssets w args hdrs =
     (case searchAssets_request args hdrs of
        Inl error \<Rightarrow> (Inl error, [])
      | Inr req \<Rightarrow> respond w req)"

subsection \<open>The tool-call handler\<close>

definition bearer_headers :: "jsval \<Rightarrow> (string \<times> string) list" where
  "bearer_headers token =
     [(''Authorization'', ''Bearer '' @ ToString token), (''Content-Type'', ''application/json'')]"

text \<open>A handler runs after the events of authentication; entering it is an event.\<close>

definition invoke ::
  "event list \<Rightarrow> string \<Rightarrow> (js_error + tool_result) \<times> event list
     \<Rightarrow> (js_error + tool_result) \<times> event list" where
  "invoke evs name r = (fst r, evs @ Invoke name # snd r)"

text \<open>The \<open>try\<close> block: authenticate, then switch on the name.\<close>

definition callTool_try ::
  "world \<Rightarrow> exabeamConfig \<Rightarrow> string \<Rightarrow> args \<Rightarrow> (js_error + tool_result) \<times> event list" where
  "callTool_try w cfg name args =
     (case authenticate w cfg of
        (Inl error, evs) \<Rightarrow> (Inl error, evs)
      | (Inr token, evs) \<Rightarrow>
         (if name = ''search_events''
            then invoke evs name (searchEvents w args (bearer_headers token))
          else if name = ''get_user_timeline''
            then invoke evs name (getUserTimeline w args (bearer_headers token))
          else if name = ''get_notable_events''
            then invoke evs name (getNotableEvents w args (bearer_headers token))
          else if name = ''get_user_risk_score''
            then invoke evs name (getUserRiskScore w args (bearer_headers token))
          else if name = ''search_assets''
            then invoke evs name (searchAssets w args (bearer_headers token))
          else (Inl (Error (''Unknown tool: '' @ name)), evs)))"

text \<open>The handler registered for tool calls: the \<open>try\<close> block and its \<open>catch\<close>.\<close>

definition callTool ::
  "world \<Rightarrow> exabeamConfig \<Rightarrow> string \<Rightarrow> args \<Rightarrow> tool_result \<times> event list" where
  "callTool w cfg name args =
     (case callTool_try w cfg name args of
        (Inl error, evs) \<Rightarrow> (text_result (JStr (''Error: '' @ message error)), evs)
      | (Inr result, evs) \<Rightarrow> (result, evs))"

definition is_auth :: "event \<Rightarrow> bool" where
  "is_auth ev = (case ev of Http r \<Rightarrow> url r = authUrl | Invoke n \<Rightarrow> False)"

definition tool_names :: "string list" where
  "tool_names = [''search_events'', ''get_user_timeline'', ''get_notable_events'',
                 ''get_user_risk_score'', ''search_assets'']"

subsection \<open>Example worlds\<close>

text \<open>
  Concrete surroundings on which the theorems below are instantiated: a configuration, a
  host in a zone with a fixed offset, and answers of the two upstream services.
\<close>

definition example_config :: exabeamConfig where
  "example_config = \<lparr>baseUrl = Some ''https://exabeam.example'', apiKey = Some ''key'',
                      apiSecret = Some ''secret''\<rparr>"

definition fixed_zone :: "(nat \<Rightarrow> int) \<Rightarrow> int \<Rightarrow> (request \<Rightarrow> axios_outcome) \<Rightarrow> world" where
  "fixed_zone c off ax =
     \<lparr>axios = ax, clock = c, LocalTZA_utc = (\<lambda>t. off), LocalTZA_local = (\<lambda>t. off)\<rparr>"

definition token_body :: jsval where
  "token_body = JObj [(''access_token'', JStr ''tok'')]"

definition server_error :: axios_outcome where
  "server_error = Rejected ''Request failed with status code 500''
     (Some \<lparr>status = 500, statusText = ''Internal Server Error'',
            data = JObj [(''error'', JStr ''boom'')]\<rparr>)"

definition unauthorized :: axios_outcome where
  "unauthorized = Rejected ''Request failed with status code 401''
     (Some \<lparr>status = 401, statusText = ''Unauthorized'',
            data = JObj [(''error_description'', JStr ''bad client credentials'')]\<rparr>)"

text \<open>Both services answer; the clock stands at 2023-11-14T22:13:20.000Z.\<close>

definition world_up :: world where
  "world_up = fixed_zone (\<lambda>n. 1700000000000) 0
     (\<lambda>r. if url r = authUrl then Resolved token_body else Resolved (JObj [(''total'', JNum 0)]))"

text \<open>The token endpoint answers, the data endpoint fails with status 500.\<close>

definition world_500 :: world where
  "world_500 = fixed_zone (\<lambda>n. 1700000000000) 0
     (\<lambda>r. if url r = authUrl then Resolved token_body else server_error)"

text \<open>The token endpoint answers, the data endpoint cannot be reached: no response at all.\<close>

definition world_down :: world where
  "world_down = fixed_zone (\<lambda>n. 1700000000000) 0
     (\<lambda>r. if url r = authUrl then Resolved token_body
          else Rejected ''connect ECONNREFUSED 203.0.113.7:443'' None)"

text \<open>The token endpoint refuses the credentials with status 401.\<close>

definition world_401 :: world where
  "world_401 = fixed_zone (\<lambda>n. 1700000000000) 0 (\<lambda>r. unauthorized)"

text \<open>
  A host on Central European time on the day the clocks go forward: local time is one hour
  ahead of UTC until 2024-03-31T01:00:00Z (02:00 local time) and two hours ahead from then
  on. The clock stands at 2024-03-31T12:00:00.000Z.
\<close>

definition world_berlin :: world where
  "world_berlin =
     \<lparr>axios = (\<lambda>r. if url r = authUrl then Resolved token_body
                     else Resolved (JObj [(''total'', JNum 0)])),
      clock = (\<lambda>n. 1711886400000),
      LocalTZA_utc = (\<lambda>t. if t < 1711846800000 then 3600000 else 7200000),
      LocalTZA_local = (\<lambda>t. if t < 1711850400000 then 3600000 else 7200000)\<rparr>"

text \<open>The parameters \<open>search_events\<close> sends in \<open>world_500\<close> and in \<open>world_down\<close> for the query \<open>user:x\<close>.\<close>

definition example_search_params :: jsval where
  "example_search_params =
     JObj [(''filter'', JStr ''user:x''),
           (''fields'', JArr [JStr ''time'', JStr ''user'', JStr ''action'',
                              JStr ''result'', JStr ''src_ip'', JStr ''dest_ip'']),
           (''startTime'', JStr ''2023-11-13T22:13:20.000Z''),
           (''endTime'', JStr ''2023-11-14T22:13:20.000Z''),
           (''limit'', JNum 100)]"

text \<open>
  The text \<open>search_events\<close> returns in \<open>world_500\<close> for the query \<open>user:x\<close>, written with
  names for the line feed and the double quote.
\<close>

definition nl :: string where "nl = [CHR 0x0A]"

definition dq :: string where "dq = [CHR 0x22]"

definition example_search_error_text :: string where
  "example_search_error_text =
     ''Error: 500 - Internal Server Error'' @ nl @ nl
     @ ''Details: {'' @ nl
     @ ''  '' @ dq @ ''error'' @ dq @ '': '' @ dq @ ''boom'' @ dq @ nl
     @ ''}'' @ nl @ nl
     @ ''Request sent: {'' @ nl
     @ ''  '' @ dq @ ''filter'' @ dq @ '': '' @ dq @ ''user:x'' @ dq @ '','' @ nl
     @ ''  '' @ dq @ ''fields'' @ dq @ '': ['' @ nl
     @ ''    '' @ dq @ ''time'' @ dq @ '','' @ nl
     @ ''    '' @ dq @ ''user'' @ dq @ '','' @ nl
     @ ''    '' @ dq @ ''action'' @ dq @ '','' @ nl
     @ ''    '' @ dq @ ''result'' @ dq @ '','' @ nl
     @ ''    '' @ dq @ ''src_ip'' @ dq @ '','' @ nl
     @ ''    '' @ dq @ ''dest_ip'' @ dq @ nl
     @ ''  ],'' @ nl
     @ ''  '' @ dq @ ''startTime'' @ dq @ '': '' @ dq @ ''2023-11-13T22:13:20.000Z'' @ dq @ '','' @ nl
     @ ''  '' @ dq @ ''endTime'' @ dq @ '': '' @ dq @ ''2023-11-14T22:13:20.000Z'' @ dq @ '','' @ nl
     @ ''  '' @ dq @ ''limit'' @ dq @ '': 100'' @ nl
     @ ''}''"

text \<open>The text \<open>search_events\<close> returns in \<open>world_down\<close> for the same query.\<close>

definition example_transport_error_text :: string where
  "example_transport_error_text =
     ''Error: undefined - undefined'' @ nl @ nl
     @ ''Details: '' @ dq @ ''connect ECONNREFUSED 203.0.113.7:443'' @ dq @ nl @ nl
     @ ''Request sent: {'' @ nl
     @ ''  '' @ dq @ ''filter'' @ dq @ '': '' @ dq @ ''user:x'' @ dq @ '','' @ nl
     @ ''  '' @ dq @ ''fields'' @ dq @ '': ['' @ nl
     @ ''    '' @ dq @ ''time'' @ dq @ '','' @ nl
     @ ''    '' @ dq @ ''user'' @ dq @ '','' @ nl
     @ ''    '' @ dq @ ''action'' @ dq @ '','' @ nl
     @ ''    '' @ dq @ ''result'' @ dq @ '','' @ nl
     @ ''    '' @ dq @ ''src_ip'' @ dq @ '','' @ nl
     @ ''    '' @ dq @ ''dest_ip'' @ dq @ nl
     @ ''  ],'' @ nl
     @ ''  '' @ dq @ ''startTime'' @ dq @ '': '' @ dq @ ''2023-11-13T22:13:20.000Z'' @ dq @ '','' @ nl
     @ ''  '' @ dq @ ''endTime'' @ dq @ '': '' @ dq @ ''2023-11-14T22:13:20.000Z'' @ dq @ '','' @ nl
     @ ''  '' @ dq @ ''limit'' @ dq @ '': 100'' @ nl
     @ ''}''"

subsection \<open>Reading a URL\<close>

text \<open>The part of a URL before its query and its fragment: it ends at the first \<open>?\<close> or \<open>#\<close>.\<close>

definition url_path :: "string \<Rightarrow> string" where
  "url_path u = takeWhile (\<lambda>c. c \<noteq> CHR ''?'' \<and> c \<noteq> CHR ''#'') u"

section \<open>Properties\<close>

subsection \<open>Evaluating dates\<close>

lemma replicate_numeral: "replicate (numeral k) x = x # replicate (numeral k - 1) x"
  by (simp add: numeral_eq_Suc)

lemmas civil_defs = civil_from_days_def civil_of_doe_def civil_of_yoe_def civil_of_doy_def
  civil_of_month_def YearFromTime_def MonthFromTime_def DateFromTime_def

lemmas time_defs = Day_def TimeWithinDay_def HourFromTime_def MinFromTime_def SecFromTime_def
  msFromTime_def msPerDay_def msPerHour_def msPerMinute_def msPerSecond_def

lemmas iso8601_eval = iso8601_def date_string_def time_string_def year_string_def pad_def
  show_nat.simps replicate_numeral civil_defs time_defs

lemma iso8601_2023_11_14: "iso8601 1700000000000 = ''2023-11-14T22:13:20.000Z''"
  by (simp add: iso8601_eval)

lemma iso8601_2023_11_13: "iso8601 1699913600000 = ''2023-11-13T22:13:20.000Z''"
  by (simp add: iso8601_eval)

lemma iso8601_2023_11_07: "iso8601 1699395200000 = ''2023-11-07T22:13:20.000Z''"
  by (simp add: iso8601_eval)

lemma iso8601_2024_03_31: "iso8601 1711886400000 = ''2024-03-31T12:00:00.000Z''"
  by (simp add: iso8601_eval)

lemma iso8601_2024_03_30_13h: "iso8601 1711803600000 = ''2024-03-30T13:00:00.000Z''"
  by (simp add: iso8601_eval)

lemma iso8601_2024_03_30_12h: "iso8601 1711800000000 = ''2024-03-30T12:00:00.000Z''"
  by (simp add: iso8601_eval)

lemma new_Date_time_value: "time_value t \<Longrightarrow> new_Date t = Some t"
  by (simp add: new_Date_def TimeClip_def time_value_def)

lemma TimeClip_time_value: "time_value t \<Longrightarrow> TimeClip t = Some t"
  by (simp add: TimeClip_def time_value_def)


lemma toISOString_Some: "toISOString (Some t) = Inr (iso8601 t)"
  by (simp add: toISOString_def)

lemma toISOString_time_value: "time_value t \<Longrightarrow> toISOString (new_Date t) = Inr (iso8601 t)"
  by (simp add: new_Date_time_value toISOString_Some)

text \<open>
  A time value is the sum of its day, hour, minute, second and millisecond fields, so that
  \<open>setHours(getHours() - n)\<close> moves the local time back by \<open>n\<close> hours.
\<close>

lemma time_decomposition:
  "t = Day t * msPerDay + HourFromTime t * msPerHour + MinFromTime t * msPerMinute
       + SecFromTime t * msPerSecond + msFromTime t"
proof -
  have s: "t = (t div 1000) * 1000 + t mod 1000" by simp
  have "t div 1000 div 60 = t div 60000"
    using zdiv_zmult2_eq [of 60 t 1000] by simp
  then have m: "t div 1000 = (t div 60000) * 60 + (t div 1000) mod 60"
    using div_mult_mod_eq [of "t div 1000" 60] by simp
  have "t div 60000 div 60 = t div 3600000"
    using zdiv_zmult2_eq [of 60 t 60000] by simp
  then have h: "t div 60000 = (t div 3600000) * 60 + (t div 60000) mod 60"
    using div_mult_mod_eq [of "t div 60000" 60] by simp
  have "t div 3600000 div 24 = t div 86400000"
    using zdiv_zmult2_eq [of 24 t 3600000] by simp
  then have d: "t div 3600000 = (t div 86400000) * 24 + (t div 3600000) mod 24"
    using div_mult_mod_eq [of "t div 3600000" 24] by simp
  define D H M S where "D = t div 86400000" and "H = (t div 3600000) mod 24"
    and "M = (t div 60000) mod 60" and "S = (t div 1000) mod 60"
  define q1 q2 q3 where "q1 = t div 1000" and "q2 = t div 60000" and "q3 = t div 3600000"
  define r where "r = t mod 1000"
  have "t = q1 * 1000 + r" "q1 = q2 * 60 + S" "q2 = q3 * 60 + M" "q3 = D * 24 + H"
    using s m h d unfolding D_def H_def M_def S_def q1_def q2_def q3_def r_def by blast+
  then have "t = D * 86400000 + H * 3600000 + M * 60000 + S * 1000 + r"
    by (simp add: algebra_simps)
  then show ?thesis
    unfolding time_defs D_def H_def M_def S_def r_def .
qed

lemma time_fields:
  "MakeDate (Day t) (MakeTime h (MinFromTime t) (SecFromTime t) (msFromTime t))
     = t - (HourFromTime t - h) * msPerHour"
proof -
  have "MakeDate (Day t) (MakeTime h (MinFromTime t) (SecFromTime t) (msFromTime t))
      = (Day t * msPerDay + HourFromTime t * msPerHour + MinFromTime t * msPerMinute
           + SecFromTime t * msPerSecond + msFromTime t) - (HourFromTime t - h) * msPerHour"
    by (simp add: MakeDate_def MakeTime_def algebra_simps)
  then show ?thesis using time_decomposition [of t] by simp
qed

lemma setHours_getHours:
  "setHours w (Some t) (js_minus (getHours w (Some t)) (Some n))
     = TimeClip (UTC w (LocalTime w t - n * msPerHour))"
  by (simp add: setHours_def getHours_def js_minus_def Let_def time_fields)

text \<open>The example worlds: their clocks and their zones.\<close>

lemma fixed_zone_sel:
  "axios (fixed_zone c off ax) = ax"
  "clock (fixed_zone c off ax) n = c n"
  "UTC (fixed_zone c off ax) (LocalTime (fixed_zone c off ax) t - d) = t - d"
  by (simp_all add: fixed_zone_def UTC_def LocalTime_def)

lemma clock_examples:
  "clock world_up n = 1700000000000"
  "clock world_500 n = 1700000000000"
  "clock world_401 n = 1700000000000"
  "clock world_down n = 1700000000000"
  "clock world_berlin n = 1711886400000"
  by (simp_all add: world_up_def world_500_def world_401_def world_down_def world_berlin_def
      fixed_zone_sel)

lemma time_value_examples:
  "time_value 1700000000000" "time_value 1699913600000" "time_value 1711886400000"
  "time_value 1711803600000"
  by (simp_all add: time_value_def)

subsection \<open>The requests of the handlers\<close>

lemma searchEvents_params_eq:
  assumes "time_value (clock w 0 - 86400000)" "time_value (clock w 0)" "time_value (clock w 1)"
  shows "searchEvents_params w a = Inr (JObj
     [(''filter'', if truthy (get a ''query'') then get a ''query'' else JStr []),
      (''fields'', JArr [JStr ''time'', JStr ''user'', JStr ''action'', JStr ''result'',
                         JStr ''src_ip'', JStr ''dest_ip'']),
      (''startTime'', if truthy (get a ''startTime'') then get a ''startTime''
                      else JStr (iso8601 (clock w 0 - 86400000))),
      (''endTime'', if truthy (get a ''endTime'') then get a ''endTime''
                    else JStr (iso8601 (clock w (if truthy (get a ''startTime'') then 0 else 1)))),
      (''limit'', if get a ''limit'' = JUndefined then JNum 100 else get a ''limit'')])"
  using assms
  by (simp add: searchEvents_params_def Let_def toISOString_time_value js_or_def default_to_def)

lemma getNotableEvents_request_eq:
  assumes "time_value (clock w 0)" "time_value (clock w 1)"
    and "ToNumber (default_to (JNum 24) (get a ''hours'')) = Some n"
    and "time_value (UTC w (LocalTime w (clock w 1) - n * msPerHour))"
  shows "getNotableEvents_request w (Some a) hdrs
     = Inr \<lparr>method = ''GET'', url = ''https://api.eu.exabeam.cloud/notable-events/v1/events'',
            params = JObj [(''minSeverity'',
                              member severityMap (default_to (JStr ''medium'') (get a ''severity''))),
                           (''startTime'', JStr (iso8601 (UTC w (LocalTime w (clock w 1) - n * msPerHour)))),
                           (''endTime'', JStr (iso8601 (clock w 0)))],
            payload = JUndefined, headers = hdrs\<rparr>"
  using assms
  by (simp add: getNotableEvents_request_def destructure_def Let_def new_Date_time_value
      setHours_getHours TimeClip_time_value toISOString_Some apiBaseUrl_def)


lemma user_urls:
  "getUserTimeline_url (JStr u) = ''https://api.eu.exabeam.cloud/users/v1/'' @ u @ ''/timeline''"
  "getUserRiskScore_url (JStr u) = ''https://api.eu.exabeam.cloud/users/v1/'' @ u @ ''/risk-score''"
  by (simp_all add: getUserTimeline_url_def getUserRiskScore_url_def apiBaseUrl_def)

lemma getUserTimeline_request_url:
  "getUserTimeline_request w (Some a) hdrs = Inr req \<Longrightarrow>
     url req = getUserTimeline_url (get a ''username'')"
  by (auto simp: getUserTimeline_request_def destructure_def Let_def split: sum.splits)

text \<open>The requests of the examples.\<close>

lemma searchEvents_params_world_500:
  "searchEvents_params world_500 [(''query'', JStr ''user:x'')] = Inr example_search_params"
  by (simp add: searchEvents_params_eq clock_examples time_value_examples get_def
      example_search_params_def iso8601_2023_11_14 iso8601_2023_11_13)

lemma searchEvents_params_world_down:
  "searchEvents_params world_down [(''query'', JStr ''user:x'')] = Inr example_search_params"
  by (simp add: searchEvents_params_eq clock_examples time_value_examples get_def
      example_search_params_def iso8601_2023_11_14 iso8601_2023_11_13)

lemma getNotableEvents_request_world_500:
  "getNotableEvents_request world_500 (Some []) (bearer_headers (JStr ''tok''))
     = Inr \<lparr>method = ''GET'', url = ''https://api.eu.exabeam.cloud/notable-events/v1/events'',
            params = JObj [(''minSeverity'', JNum 2),
                           (''startTime'', JStr ''2023-11-13T22:13:20.000Z''),
                           (''endTime'', JStr ''2023-11-14T22:13:20.000Z'')],
            payload = JUndefined,
            headers = [(''Authorization'', ''Bearer tok''), (''Content-Type'', ''application/json'')]\<rparr>"
proof -
  have n: "ToNumber (default_to (JNum 24) (get [] ''hours'')) = Some 24"
    by (simp add: get_def default_to_def)
  have u: "UTC world_500 (LocalTime world_500 1700000000000 - 24 * msPerHour) = 1699913600000"
    by (simp add: world_500_def fixed_zone_sel msPerHour_def)
  have "getNotableEvents_request world_500 (Some []) (bearer_headers (JStr ''tok''))
     = Inr \<lparr>method = ''GET'', url = ''https://api.eu.exabeam.cloud/notable-events/v1/events'',
            params = JObj [(''minSeverity'',
                              member severityMap (default_to (JStr ''medium'') (get [] ''severity''))),
                           (''startTime'', JStr (iso8601 (UTC world_500
                              (LocalTime world_500 (clock world_500 1) - 24 * msPerHour)))),
                           (''endTime'', JStr (iso8601 (clock world_500 0)))],
            payload = JUndefined, headers = bearer_headers (JStr ''tok'')\<rparr>"
    by (rule getNotableEvents_request_eq [OF _ _ n]) (simp_all add: u clock_examples time_value_examples)
  then show ?thesis
    by (simp add: u clock_examples iso8601_2023_11_14 iso8601_2023_11_13 get_def default_to_def
        member_def severityMap_def bearer_headers_def)
qed

lemma getUserTimeline_request_fixed_zone:
  "getUserTimeline_request (fixed_zone (\<lambda>n. 1700000000000) 0 ax) (Some [(''username'', JStr u)]) hdrs
     = Inr \<lparr>method = ''GET'', url = ''https://api.eu.exabeam.cloud/users/v1/'' @ u @ ''/timeline'',
            params = JObj [(''startTime'', JStr ''2023-11-07T22:13:20.000Z''),
                           (''endTime'', JStr ''2023-11-14T22:13:20.000Z'')],
            payload = JUndefined, headers = hdrs\<rparr>"
proof -
  define w where "w = fixed_zone (\<lambda>n. 1700000000000) 0 ax"
  have c: "\<And>n. clock w n = 1700000000000"
    by (simp add: w_def fixed_zone_def)
  have l: "LocalTime w 1700000000000 = 1700000000000"
    by (simp add: LocalTime_def w_def fixed_zone_def)
  have "DateFromTime 1700000000000 = 14"
    by (simp add: civil_defs time_defs)
  then have g: "getDate w (Some 1700000000000) = Some 14"
    by (simp add: getDate_def l)
  have d: "MakeDay (YearFromTime 1700000000000) (MonthFromTime 1700000000000) 7 = 19668"
    by (simp add: MakeDay_def days_from_civil_def days_of_march_year_def civil_defs time_defs)
  have u: "\<And>t. UTC w t = t"
    by (simp add: UTC_def w_def fixed_zone_def)
  have s: "setDate w (Some 1700000000000) (Some 7) = Some 1699395200000"
    by (simp add: setDate_def l d u Let_def MakeDate_def TimeClip_def time_defs)
  have "getUserTimeline_request w (Some [(''username'', JStr u)]) hdrs
     = Inr \<lparr>method = ''GET'', url = ''https://api.eu.exabeam.cloud/users/v1/'' @ u @ ''/timeline'',
            params = JObj [(''startTime'', JStr ''2023-11-07T22:13:20.000Z''),
                           (''endTime'', JStr ''2023-11-14T22:13:20.000Z'')],
            payload = JUndefined, headers = hdrs\<rparr>"
    by (simp add: getUserTimeline_request_def destructure_def Let_def get_def default_to_def
        c new_Date_time_value time_value_examples g js_minus_def s toISOString_Some
        iso8601_2023_11_07 iso8601_2023_11_14 user_urls)
  then show ?thesis
    by (simp only: w_def)
qed

lemma getUserTimeline_request_world_500:
  "getUserTimeline_request world_500 (Some [(''username'', JStr ''jdoe'')]) (bearer_headers (JStr ''tok''))
     = Inr \<lparr>method = ''GET'', url = ''https://api.eu.exabeam.cloud/users/v1/jdoe/timeline'',
            params = JObj [(''startTime'', JStr ''2023-11-07T22:13:20.000Z''),
                           (''endTime'', JStr ''2023-11-14T22:13:20.000Z'')],
            payload = JUndefined,
            headers = [(''Authorization'', ''Bearer tok''), (''Content-Type'', ''application/json'')]\<rparr>"
  by (simp add: world_500_def getUserTimeline_request_fixed_zone bearer_headers_def)

lemma getUserTimeline_request_world_up:
  "getUserTimeline_request world_up (Some [(''username'', JStr u)]) hdrs
     = Inr \<lparr>method = ''GET'', url = ''https://api.eu.exabeam.cloud/users/v1/'' @ u @ ''/timeline'',
            params = JObj [(''startTime'', JStr ''2023-11-07T22:13:20.000Z''),
                           (''endTime'', JStr ''2023-11-14T22:13:20.000Z'')],
            payload = JUndefined, headers = hdrs\<rparr>"
  by (simp add: world_up_def getUserTimeline_request_fixed_zone)

lemma getUserRiskScore_request_example:
  "getUserRiskScore_request (Some [(''username'', JStr ''jdoe'')]) (bearer_headers (JStr ''tok''))
     = Inr \<lparr>method = ''GET'', url = ''https://api.eu.exabeam.cloud/users/v1/jdoe/risk-score'',
            params = JUndefined, payload = JUndefined,
            headers = [(''Authorization'', ''Bearer tok''), (''Content-Type'', ''application/json'')]\<rparr>"
  by (simp add: getUserRiskScore_request_def destructure_def get_def user_urls bearer_headers_def)

lemma searchAssets_request_example:
  "searchAssets_request (Some [(''query'', JStr ''web'')]) (bearer_headers (JStr ''tok''))
     = Inr \<lparr>method = ''POST'', url = ''https://api.eu.exabeam.cloud/assets/v1/search'',
            params = JUndefined, payload = JObj [(''query'', JStr ''web''), (''limit'', JNum 50)],
            headers = [(''Authorization'', ''Bearer tok''), (''Content-Type'', ''application/json'')]\<rparr>"
  by (simp add: searchAssets_request_def destructure_def searchAssets_params_def get_def
      default_to_def apiBaseUrl_def bearer_headers_def)

lemma show_int_500: "show_int 500 = ''500''"
  by (simp add: show_int_def show_nat.simps)

lemmas stringify_eval = JSON_stringify_def QuoteJSONString_def quote_char_def show_int_def
  show_nat.simps nl_def dq_def

lemma JSON_stringify_error_body:
  "JSON_stringify (JObj [(''error'', JStr ''boom'')])
     = JStr (''{'' @ nl @ ''  '' @ dq @ ''error'' @ dq @ '': '' @ dq @ ''boom'' @ dq @ nl @ ''}'')"
  by (simp add: stringify_eval)

lemma JSON_stringify_example_search_params:
  "JSON_stringify example_search_params
     = JStr (''{'' @ nl
         @ ''  '' @ dq @ ''filter'' @ dq @ '': '' @ dq @ ''user:x'' @ dq @ '','' @ nl
         @ ''  '' @ dq @ ''fields'' @ dq @ '': ['' @ nl
         @ ''    '' @ dq @ ''time'' @ dq @ '','' @ nl
         @ ''    '' @ dq @ ''user'' @ dq @ '','' @ nl
         @ ''    '' @ dq @ ''action'' @ dq @ '','' @ nl
         @ ''    '' @ dq @ ''result'' @ dq @ '','' @ nl
         @ ''    '' @ dq @ ''src_ip'' @ dq @ '','' @ nl
         @ ''    '' @ dq @ ''dest_ip'' @ dq @ nl
         @ ''  ],'' @ nl
         @ ''  '' @ dq @ ''startTime'' @ dq @ '': '' @ dq @ ''2023-11-13T22:13:20.000Z'' @ dq @ '','' @ nl
         @ ''  '' @ dq @ ''endTime'' @ dq @ '': '' @ dq @ ''2023-11-14T22:13:20.000Z'' @ dq @ '','' @ nl
         @ ''  '' @ dq @ ''limit'' @ dq @ '': 100'' @ nl
         @ ''}'')"
  by (simp add: stringify_eval example_search_params_def)

subsection \<open>The result of a tool call\<close>

lemma data_url_not_auth: "apiBaseUrl @ rest \<noteq> authUrl"
  by (simp add: apiBaseUrl_def authUrl_def)

lemma authenticate_events: "snd (authenticate w cfg) = [Http (auth_request cfg)]"
  by (simp add: authenticate_def)

lemma authenticate_pair:
  "fst (authenticate w cfg) = x \<Longrightarrow> authenticate w cfg = (x, [Http (auth_request cfg)])"
  using authenticate_events [of w cfg] by (cases "authenticate w cfg") simp

lemma is_auth_auth_request: "is_auth (Http (auth_request cfg))"
  by (simp add: is_auth_def auth_request_def)


lemma respond_events: "snd (respond w req) = [Http req]"
  by (simp add: respond_def)









lemma callTool_auth_failed:
  "fst (authenticate w cfg) = Inl error \<Longrightarrow>
     callTool w cfg name args
       = (text_result (JStr (''Error: '' @ message error)), [Http (auth_request cfg)])"
  using authenticate_pair [of w cfg "Inl error"] by (simp add: callTool_def callTool_try_def)

lemma authenticate_world_401:
  "fst (authenticate world_401 example_config)
     = Inl (Error ''Authentication failed: bad client credentials'')"
  by (simp add: authenticate_def world_401_def fixed_zone_def await_def unauthorized_def
      authentication_failed_def opt_prop_def get_def js_or_def)

lemma authenticate_world_up: "fst (authenticate world_up example_config) = Inr (JStr ''tok'')"
  by (simp add: authenticate_def world_up_def fixed_zone_def await_def token_body_def get_def
      auth_request_def)



subsection \<open>Authentication comes first\<close>

lemma searchEvents_events: "filter is_auth (snd (searchEvents w args hdrs)) = []"
  by (auto simp: searchEvents_def searchEvents_request_def is_auth_def data_url_not_auth
           split: sum.splits)

lemma getUserTimeline_events: "filter is_auth (snd (getUserTimeline w args hdrs)) = []"
  by (auto simp: getUserTimeline_def getUserTimeline_request_def getUserTimeline_url_def Let_def
      respond_events is_auth_def data_url_not_auth split: sum.splits)

lemma getNotableEvents_events: "filter is_auth (snd (getNotableEvents w args hdrs)) = []"
  by (auto simp: getNotableEvents_def getNotableEvents_request_def Let_def
      respond_events is_auth_def data_url_not_auth split: sum.splits)

lemma getUserRiskScore_events: "filter is_auth (snd (getUserRiskScore w args hdrs)) = []"
  by (auto simp: getUserRiskScore_def getUserRiskScore_request_def getUserRiskScore_url_def
      respond_events is_auth_def data_url_not_auth split: sum.splits)

lemma searchAssets_events: "filter is_auth (snd (searchAssets w args hdrs)) = []"
  by (auto simp: searchAssets_def searchAssets_request_def
      respond_events is_auth_def data_url_not_auth split: sum.splits)

lemmas handler_events = searchEvents_events getUserTimeline_events getNotableEvents_events
  getUserRiskScore_events searchAssets_events

lemma callTool_try_events:
  "\<exists>rest. snd (callTool_try w cfg name args) = Http (auth_request cfg) # rest
     \<and> filter is_auth rest = []"
  by (cases "fst (authenticate w cfg)")
     (auto simp: callTool_try_def invoke_def authenticate_def handler_events is_auth_def
           split: prod.splits sum.splits)

lemma callTool_events: "snd (callTool w cfg name args) = snd (callTool_try w cfg name args)"
  by (cases "callTool_try w cfg name args") (auto simp: callTool_def split: sum.splits)

text \<open>
  C2. In every tool call the token request is the first event, before the entry into any
  handler, and it is the only request to the token endpoint in the call: \<open>authenticate\<close>
  runs exactly once. Whenever \<open>authenticate\<close> fails, the call, whatever its tool name,
  returns the error text and its only event is the token request: no handler is entered
  and no request goes to the data endpoint.
\<close>

theorem authenticate_once_before_handler:
  "(\<exists>rest. snd (callTool w cfg name args) = Http (auth_request cfg) # rest
       \<and> filter is_auth rest = [])
   \<and> filter is_auth (snd (callTool w cfg name args)) = [Http (auth_request cfg)]
   \<and> (\<forall>error. fst (authenticate w cfg) = Inl error \<longrightarrow>
         callTool w cfg name args
           = (text_result (JStr (''Error: '' @ message error)), [Http (auth_request cfg)]))"
proof -
  obtain rest where rest: "snd (callTool_try w cfg name args) = Http (auth_request cfg) # rest"
    "filter is_auth rest = []"
    using callTool_try_events by blast
  then show ?thesis
    by (auto simp: callTool_events is_auth_auth_request callTool_auth_failed)
qed

theorem authenticate_once_before_handler_witness:
  "callTool world_401 example_config ''search_events'' (Some [(''query'', JStr ''user:x'')])
     = (text_result (JStr ''Error: Authentication failed: bad client credentials''),
        [Http (auth_request example_config)])"
  using authenticate_once_before_handler [of world_401 example_config "''search_events''"
      "Some [(''query'', JStr ''user:x'')]"] authenticate_world_401
  by simp

subsection \<open>Unknown tools\<close>

text \<open>
  C3, as stated, fails where authentication fails: the catch block then reports the
  authentication error, whatever the tool name.
\<close>

theorem unknown_tool_counterexample:
  "fst (callTool world_401 example_config ''delete_everything'' (Some []))
     = text_result (JStr ''Error: Authentication failed: bad client credentials'')
   \<and> fst (callTool world_401 example_config ''delete_everything'' (Some []))
     \<noteq> text_result (JStr ''Error: Unknown tool: delete_everything'')"
  using callTool_auth_failed [OF authenticate_world_401, of "''delete_everything''" "Some []"]
  by (simp add: text_result_def)

text \<open>
  C3, amended. When authentication succeeds, a call whose name is none of the five tool
  names returns the single text block \<open>Error: Unknown tool: \<close> followed by the name, and
  the token request is its only event.
\<close>

theorem unknown_tool:
  assumes "name \<notin> set tool_names" and "fst (authenticate w cfg) = Inr token"
  shows "callTool w cfg name args
           = (text_result (JStr (''Error: Unknown tool: '' @ name)), [Http (auth_request cfg)])"
proof -
  from assms(2) have "authenticate w cfg = (Inr token, [Http (auth_request cfg)])"
    by (rule authenticate_pair)
  with assms(1) show ?thesis
    by (simp add: callTool_def callTool_try_def tool_names_def)
qed

theorem unknown_tool_witness:
  "callTool world_up example_config ''delete_everything'' None
     = (text_result (JStr ''Error: Unknown tool: delete_everything''),
        [Http (auth_request example_config)])"
  using unknown_tool [of "''delete_everything''" world_up example_config "JStr ''tok''" None]
    authenticate_world_up
  by (simp add: tool_names_def)

subsection \<open>Failures of the data endpoint\<close>

lemma callTool_authenticated:
  "fst (authenticate w cfg) = Inr token \<Longrightarrow>
     callTool_try w cfg name args =
       (if name = ''search_events''
          then invoke [Http (auth_request cfg)] name (searchEvents w args (bearer_headers token))
        else if name = ''get_user_timeline''
          then invoke [Http (auth_request cfg)] name (getUserTimeline w args (bearer_headers token))
        else if name = ''get_notable_events''
          then invoke [Http (auth_request cfg)] name (getNotableEvents w args (bearer_headers token))
        else if name = ''get_user_risk_score''
          then invoke [Http (auth_request cfg)] name (getUserRiskScore w args (bearer_headers token))
        else if name = ''search_assets''
          then invoke [Http (auth_request cfg)] name (searchAssets w args (bearer_headers token))
        else (Inl (Error (''Unknown tool: '' @ name)), [Http (auth_request cfg)]))"
  using authenticate_pair [of w cfg "Inr token"] by (simp add: callTool_try_def)

lemma respond_rejected:
  "axios w req = Rejected m r \<Longrightarrow> respond w req = (Inl (AxiosError m r), [Http req])"
  by (simp add: respond_def await_def)

text \<open>
  C4. When the events-search request is rejected, \<open>search_events\<close> catches the rejection
  itself: the call returns the text made of the status code, the status text, the body of
  the response as JSON (the message of the rejection when the body is falsy, or when there
  is no response at all, in which case status and status text read \<open>undefined\<close>), and the
  search parameters as JSON, which are the very payload of the request that was sent. Each
  of the other four handlers lets the rejection through to the tool-call handler, whose
  text is \<open>Error: \<close> followed by the message of the rejection.
\<close>

theorem search_events_catches_others_propagate:
  "(\<forall>token a sp m resp.
      fst (authenticate w cfg) = Inr token \<and> searchEvents_params w a = Inr sp
      \<and> axios w (searchEvents_request sp (bearer_headers token)) = Rejected m (Some resp) \<longrightarrow>
      callTool w cfg ''search_events'' (Some a)
        = (text_result (JStr (''Error: '' @ show_int (status resp) @ '' - '' @ statusText resp
             @ [CHR 0x0A, CHR 0x0A] @ ''Details: ''
             @ ToString (JSON_stringify (js_or (data resp) (JStr m)))
             @ [CHR 0x0A, CHR 0x0A] @ ''Request sent: '' @ ToString (JSON_stringify sp))),
           [Http (auth_request cfg), Invoke ''search_events'',
            Http (searchEvents_request sp (bearer_headers token))])
      \<and> payload (searchEvents_request sp (bearer_headers token)) = sp)
   \<and> (\<forall>token a sp m.
      fst (authenticate w cfg) = Inr token \<and> searchEvents_params w a = Inr sp
      \<and> axios w (searchEvents_request sp (bearer_headers token)) = Rejected m None \<longrightarrow>
      callTool w cfg ''search_events'' (Some a)
        = (text_result (JStr (''Error: undefined - undefined''
             @ [CHR 0x0A, CHR 0x0A] @ ''Details: '' @ ToString (JSON_stringify (JStr m))
             @ [CHR 0x0A, CHR 0x0A] @ ''Request sent: '' @ ToString (JSON_stringify sp))),
           [Http (auth_request cfg), Invoke ''search_events'',
            Http (searchEvents_request sp (bearer_headers token))]))
   \<and> (\<forall>token req m r.
      fst (authenticate w cfg) = Inr token
      \<and> getUserTimeline_request w args (bearer_headers token) = Inr req
      \<and> axios w req = Rejected m r \<longrightarrow>
      getUserTimeline w args (bearer_headers token) = (Inl (AxiosError m r), [Http req])
      \<and> callTool w cfg ''get_user_timeline'' args
        = (text_result (JStr (''Error: '' @ m)),
           [Http (auth_request cfg), Invoke ''get_user_timeline'', Http req]))
   \<and> (\<forall>token req m r.
      fst (authenticate w cfg) = Inr token
      \<and> getNotableEvents_request w args (bearer_headers token) = Inr req
      \<and> axios w req = Rejected m r \<longrightarrow>
      getNotableEvents w args (bearer_headers token) = (Inl (AxiosError m r), [Http req])
      \<and> callTool w cfg ''get_notable_events'' args
        = (text_result (JStr (''Error: '' @ m)),
           [Http (auth_request cfg), Invoke ''get_notable_events'', Http req]))
   \<and> (\<forall>token req m r.
      fst (authenticate w cfg) = Inr token
      \<and> getUserRiskScore_request args (bearer_headers token) = Inr req
      \<and> axios w req = Rejected m r \<longrightarrow>
      getUserRiskScore w args (bearer_headers token) = (Inl (AxiosError m r), [Http req])
      \<and> callTool w cfg ''get_user_risk_score'' args
        = (text_result (JStr (''Error: '' @ m)),
           [Http (auth_request cfg), Invoke ''get_user_risk_score'', Http req]))
   \<and> (\<forall>token req m r.
      fst (authenticate w cfg) = Inr token
      \<and> searchAssets_request args (bearer_headers token) = Inr req
      \<and> axios w req = Rejected m r \<longrightarrow>
      searchAssets w args (bearer_headers token) = (Inl (AxiosError m r), [Http req])
      \<and> callTool w cfg ''search_assets'' args
        = (text_result (JStr (''Error: '' @ m)),
           [Http (auth_request cfg), Invoke ''search_assets'', Http req]))"
proof (intro conjI allI impI; elim conjE)
  fix token a sp m resp
  assume "fst (authenticate w cfg) = Inr token" "searchEvents_params w a = Inr sp"
    "axios w (searchEvents_request sp (bearer_headers token)) = Rejected m (Some resp)"
  then show "callTool w cfg ''search_events'' (Some a)
        = (text_result (JStr (''Error: '' @ show_int (status resp) @ '' - '' @ statusText resp
             @ [CHR 0x0A, CHR 0x0A] @ ''Details: ''
             @ ToString (JSON_stringify (js_or (data resp) (JStr m)))
             @ [CHR 0x0A, CHR 0x0A] @ ''Request sent: '' @ ToString (JSON_stringify sp))),
           [Http (auth_request cfg), Invoke ''search_events'',
            Http (searchEvents_request sp (bearer_headers token))])"
    by (simp add: callTool_def callTool_authenticated invoke_def searchEvents_def destructure_def
        await_def search_error_text_def)
next
  fix token sp
  show "payload (searchEvents_request sp (bearer_headers token)) = sp"
    by (simp add: searchEvents_request_def)
next
  fix token a sp m
  assume "fst (authenticate w cfg) = Inr token" "searchEvents_params w a = Inr sp"
    "axios w (searchEvents_request sp (bearer_headers token)) = Rejected m None"
  then show "callTool w cfg ''search_events'' (Some a)
        = (text_result (JStr (''Error: undefined - undefined''
             @ [CHR 0x0A, CHR 0x0A] @ ''Details: '' @ ToString (JSON_stringify (JStr m))
             @ [CHR 0x0A, CHR 0x0A] @ ''Request sent: '' @ ToString (JSON_stringify sp))),
           [Http (auth_request cfg), Invoke ''search_events'',
            Http (searchEvents_request sp (bearer_headers token))])"
    by (simp add: callTool_def callTool_authenticated invoke_def searchEvents_def destructure_def
        await_def search_error_text_def js_or_def)
next
  fix token req m r
  assume "getUserTimeline_request w args (bearer_headers token) = Inr req"
    "axios w req = Rejected m r"
  then show "getUserTimeline w args (bearer_headers token) = (Inl (AxiosError m r), [Http req])"
    by (simp add: getUserTimeline_def respond_rejected)
next
  fix token req m r
  assume "fst (authenticate w cfg) = Inr token"
    "getUserTimeline_request w args (bearer_headers token) = Inr req"
    "axios w req = Rejected m r"
  then show "callTool w cfg ''get_user_timeline'' args
        = (text_result (JStr (''Error: '' @ m)),
           [Http (auth_request cfg), Invoke ''get_user_timeline'', Http req])"
    by (simp add: callTool_def callTool_authenticated invoke_def getUserTimeline_def
        respond_rejected)
next
  fix token req m r
  assume "getNotableEvents_request w args (bearer_headers token) = Inr req"
    "axios w req = Rejected m r"
  then show "getNotableEvents w args (bearer_headers token) = (Inl (AxiosError m r), [Http req])"
    by (simp add: getNotableEvents_def respond_rejected)
next
  fix token req m r
  assume "fst (authenticate w cfg) = Inr token"
    "getNotableEvents_request w args (bearer_headers token) = Inr req"
    "axios w req = Rejected m r"
  then show "callTool w cfg ''get_notable_events'' args
        = (text_result (JStr (''Error: '' @ m)),
           [Http (auth_request cfg), Invoke ''get_notable_events'', Http req])"
    by (simp add: callTool_def callTool_authenticated invoke_def getNotableEvents_def
        respond_rejected)
next
  fix token req m r
  assume "getUserRiskScore_request args (bearer_headers token) = Inr req"
    "axios w req = Rejected m r"
  then show "getUserRiskScore w args (bearer_headers token) = (Inl (AxiosError m r), [Http req])"
    by (simp add: getUserRiskScore_def respond_rejected)
next
  fix token req m r
  assume "fst (authenticate w cfg) = Inr token"
    "getUserRiskScore_request args (bearer_headers token) = Inr req"
    "axios w req = Rejected m r"
  then show "callTool w cfg ''get_user_risk_score'' args
        = (text_result (JStr (''Error: '' @ m)),
           [Http (auth_request cfg), Invoke ''get_user_risk_score'', Http req])"
    by (simp add: callTool_def callTool_authenticated invoke_def getUserRiskScore_def
        respond_rejected)
next
  fix token req m r
  assume "searchAssets_request args (bearer_headers token) = Inr req"
    "axios w req = Rejected m r"
  then show "searchAssets w args (bearer_headers token) = (Inl (AxiosError m r), [Http req])"
    by (simp add: searchAssets_def respond_rejected)
next
  fix token req m r
  assume "fst (authenticate w cfg) = Inr token"
    "searchAssets_request args (bearer_headers token) = Inr req"
    "axios w req = Rejected m r"
  then show "callTool w cfg ''search_assets'' args
        = (text_result (JStr (''Error: '' @ m)),
           [Http (auth_request cfg), Invoke ''search_assets'', Http req])"
    by (simp add: callTool_def callTool_authenticated invoke_def searchAssets_def
        respond_rejected)
qed

lemma authenticate_world_500: "fst (authenticate world_500 example_config) = Inr (JStr ''tok'')"
  by (simp add: authenticate_def world_500_def fixed_zone_def await_def token_body_def get_def
      auth_request_def)

lemma world_500_data: "url r \<noteq> authUrl \<Longrightarrow> axios world_500 r = server_error"
  by (simp add: world_500_def fixed_zone_def)

lemma authenticate_world_down: "fst (authenticate world_down example_config) = Inr (JStr ''tok'')"
  by (simp add: authenticate_def world_down_def fixed_zone_def await_def token_body_def get_def
      auth_request_def)

lemma world_down_data:
  "url r \<noteq> authUrl \<Longrightarrow>
     axios world_down r = Rejected ''connect ECONNREFUSED 203.0.113.7:443'' None"
  by (simp add: world_down_def fixed_zone_def)

lemma JSON_stringify_transport_message:
  "JSON_stringify (JStr ''connect ECONNREFUSED 203.0.113.7:443'')
     = JStr (dq @ ''connect ECONNREFUSED 203.0.113.7:443'' @ dq)"
  by (simp add: stringify_eval)

theorem search_events_catches_others_propagate_witness:
  "fst (callTool world_500 example_config ''search_events'' (Some [(''query'', JStr ''user:x'')]))
     = text_result (JStr example_search_error_text)
   \<and> fst (callTool world_down example_config ''search_events'' (Some [(''query'', JStr ''user:x'')]))
     = text_result (JStr example_transport_error_text)
   \<and> fst (callTool world_500 example_config ''get_user_timeline'' (Some [(''username'', JStr ''jdoe'')]))
     = text_result (JStr ''Error: Request failed with status code 500'')
   \<and> fst (callTool world_500 example_config ''get_notable_events'' (Some []))
     = text_result (JStr ''Error: Request failed with status code 500'')
   \<and> fst (callTool world_500 example_config ''get_user_risk_score'' (Some [(''username'', JStr ''jdoe'')]))
     = text_result (JStr ''Error: Request failed with status code 500'')
   \<and> fst (callTool world_500 example_config ''search_assets'' (Some [(''query'', JStr ''web'')]))
     = text_result (JStr ''Error: Request failed with status code 500'')"
proof -
  note auth = authenticate_world_500
  have search: "axios world_500 (searchEvents_request example_search_params (bearer_headers (JStr ''tok'')))
      = Rejected ''Request failed with status code 500''
          (Some \<lparr>status = 500, statusText = ''Internal Server Error'',
                 data = JObj [(''error'', JStr ''boom'')]\<rparr>)"
    by (simp add: world_500_data searchEvents_request_def data_url_not_auth server_error_def)
  have rej: "\<And>r rest. url r = apiBaseUrl @ rest \<Longrightarrow>
      axios world_500 r = Rejected ''Request failed with status code 500''
          (Some \<lparr>status = 500, statusText = ''Internal Server Error'',
                 data = JObj [(''error'', JStr ''boom'')]\<rparr>)"
    by (simp add: world_500_data data_url_not_auth server_error_def)
  have c1: "fst (callTool world_500 example_config ''search_events'' (Some [(''query'', JStr ''user:x'')]))
     = text_result (JStr example_search_error_text)"
    using search_events_catches_others_propagate [of world_500 example_config,
        THEN conjunct1, rule_format, OF conjI [OF auth conjI [OF searchEvents_params_world_500 search]]]
    by (simp add: show_int_500 js_or_def JSON_stringify_error_body
        JSON_stringify_example_search_params example_search_error_text_def nl_def)
  have down: "axios world_down (searchEvents_request example_search_params (bearer_headers (JStr ''tok'')))
      = Rejected ''connect ECONNREFUSED 203.0.113.7:443'' None"
    by (simp add: world_down_data searchEvents_request_def data_url_not_auth)
  have c1': "fst (callTool world_down example_config ''search_events'' (Some [(''query'', JStr ''user:x'')]))
     = text_result (JStr example_transport_error_text)"
    using search_events_catches_others_propagate [of world_down example_config,
        THEN conjunct2, THEN conjunct1, rule_format,
        OF conjI [OF authenticate_world_down conjI [OF searchEvents_params_world_down down]]]
    by (simp add: JSON_stringify_transport_message
        JSON_stringify_example_search_params example_transport_error_text_def nl_def)
  have c2: "fst (callTool world_500 example_config ''get_user_timeline'' (Some [(''username'', JStr ''jdoe'')]))
     = text_result (JStr ''Error: Request failed with status code 500'')"
    using search_events_catches_others_propagate [of world_500 example_config
        "Some [(''username'', JStr ''jdoe'')]",
        THEN conjunct2, THEN conjunct2, THEN conjunct1, rule_format,
        OF conjI [OF auth conjI [OF getUserTimeline_request_world_500 rej [of _ "''/users/v1/jdoe/timeline''"]]]]
    by (simp add: apiBaseUrl_def)
  have c3: "fst (callTool world_500 example_config ''get_notable_events'' (Some []))
     = text_result (JStr ''Error: Request failed with status code 500'')"
    using search_events_catches_others_propagate [of world_500 example_config "Some []",
        THEN conjunct2, THEN conjunct2, THEN conjunct2, THEN conjunct1, rule_format,
        OF conjI [OF auth conjI [OF getNotableEvents_request_world_500 rej [of _ "''/notable-events/v1/events''"]]]]
    by (simp add: apiBaseUrl_def)
  have c4: "fst (callTool world_500 example_config ''get_user_risk_score'' (Some [(''username'', JStr ''jdoe'')]))
     = text_result (JStr ''Error: Request failed with status code 500'')"
    using search_events_catches_others_propagate [of world_500 example_config
        "Some [(''username'', JStr ''jdoe'')]",
        THEN conjunct2, THEN conjunct2, THEN conjunct2, THEN conjunct2, THEN conjunct1, rule_format,
        OF conjI [OF auth conjI [OF getUserRiskScore_request_example rej [of _ "''/users/v1/jdoe/risk-score''"]]]]
    by (simp add: apiBaseUrl_def)
  have c5: "fst (callTool world_500 example_config ''search_assets'' (Some [(''query'', JStr ''web'')]))
     = text_result (JStr ''Error: Request failed with status code 500'')"
    using search_events_catches_others_propagate [of world_500 example_config
        "Some [(''query'', JStr ''web'')]",
        THEN conjunct2, THEN conjunct2, THEN conjunct2, THEN conjunct2, THEN conjunct2, rule_format,
        OF conjI [OF auth conjI [OF searchAssets_request_example rej [of _ "''/assets/v1/search''"]]]]
    by (simp add: apiBaseUrl_def)
  from c1 c1' c2 c3 c4 c5 show ?thesis by blast
qed

subsection \<open>The request of search_events\<close>

text \<open>
  C5. On a host whose clock shows time values, every call of \<open>search_events\<close> with an
  argument object issues one request, a POST to the events-search path, whose body has
  the five properties \<open>filter\<close>, \<open>fields\<close>, \<open>startTime\<close>, \<open>endTime\<close> and \<open>limit\<close>, where
  \<^item> \<open>filter\<close> is the query when the query is a string, and the empty string when the
    query is absent (in general: the query when it is truthy, the empty string otherwise);
  \<^item> \<open>fields\<close> is the list time, user, action, result, src_ip, dest_ip;
  \<^item> \<open>limit\<close> is the argument, and 100 when the argument is absent;
  \<^item> \<open>startTime\<close> is the argument when it is truthy, and otherwise the ISO text of the
    reading of the clock less 24 hours;
  \<^item> \<open>endTime\<close> is the argument when it is truthy, and otherwise the ISO text of the next
    reading of the clock (the first one, when \<open>startTime\<close> took none).
\<close>

theorem search_events_body:
  assumes "time_value (clock w 0 - 86400000)" "time_value (clock w 0)" "time_value (clock w 1)"
  shows "\<exists>sp. searchEvents_params w a = Inr (JObj sp)
      \<and> snd (searchEvents w (Some a) hdrs) = [Http (searchEvents_request (JObj sp) hdrs)]
      \<and> method (searchEvents_request (JObj sp) hdrs) = ''POST''
      \<and> url (searchEvents_request (JObj sp) hdrs) = ''https://api.eu.exabeam.cloud/search/v2/events''
      \<and> payload (searchEvents_request (JObj sp) hdrs) = JObj sp
      \<and> map fst sp = [''filter'', ''fields'', ''startTime'', ''endTime'', ''limit'']
      \<and> (\<forall>q. get a ''query'' = JStr q \<longrightarrow> get sp ''filter'' = JStr q)
      \<and> (get a ''query'' = JUndefined \<longrightarrow> get sp ''filter'' = JStr [])
      \<and> get sp ''filter'' = (if truthy (get a ''query'') then get a ''query'' else JStr [])
      \<and> get sp ''fields'' = JArr [JStr ''time'', JStr ''user'', JStr ''action'', JStr ''result'',
                                  JStr ''src_ip'', JStr ''dest_ip'']
      \<and> get sp ''limit'' = (if get a ''limit'' = JUndefined then JNum 100 else get a ''limit'')
      \<and> get sp ''startTime'' = (if truthy (get a ''startTime'') then get a ''startTime''
                                 else JStr (iso8601 (clock w 0 - 24 * 60 * 60 * 1000)))
      \<and> get sp ''endTime'' = (if truthy (get a ''endTime'') then get a ''endTime''
                               else JStr (iso8601 (clock w (if truthy (get a ''startTime'') then 0 else 1))))"
  by (simp add: searchEvents_params_eq [OF assms] searchEvents_def destructure_def
      searchEvents_request_def apiBaseUrl_def get_def)

theorem search_events_body_witness:
  "(\<exists>sp. searchEvents_params world_up [(''query'', JStr ''user:x'')] = Inr (JObj sp)
      \<and> snd (searchEvents world_up (Some [(''query'', JStr ''user:x'')]) [])
          = [Http (searchEvents_request (JObj sp) [])]
      \<and> map fst sp = [''filter'', ''fields'', ''startTime'', ''endTime'', ''limit'']
      \<and> get sp ''filter'' = JStr ''user:x''
      \<and> get sp ''limit'' = JNum 100
      \<and> get sp ''startTime'' = JStr ''2023-11-13T22:13:20.000Z''
      \<and> get sp ''endTime'' = JStr ''2023-11-14T22:13:20.000Z'')
   \<and> (\<exists>sp. searchEvents_params world_up [(''limit'', JNum 5)] = Inr (JObj sp)
      \<and> get sp ''filter'' = JStr []
      \<and> get sp ''limit'' = JNum 5)"
proof -
  have tv: "time_value (clock world_up 0 - 86400000)" "time_value (clock world_up 0)"
    "time_value (clock world_up 1)"
    by (simp_all add: clock_examples time_value_def)
  have first: "\<exists>sp. searchEvents_params world_up [(''query'', JStr ''user:x'')] = Inr (JObj sp)
      \<and> snd (searchEvents world_up (Some [(''query'', JStr ''user:x'')]) [])
          = [Http (searchEvents_request (JObj sp) [])]
      \<and> map fst sp = [''filter'', ''fields'', ''startTime'', ''endTime'', ''limit'']
      \<and> get sp ''filter'' = JStr ''user:x''
      \<and> get sp ''limit'' = JNum 100
      \<and> get sp ''startTime'' = JStr ''2023-11-13T22:13:20.000Z''
      \<and> get sp ''endTime'' = JStr ''2023-11-14T22:13:20.000Z''"
    using search_events_body [OF tv, of "[(''query'', JStr ''user:x'')]" "[]"]
    apply (elim exE)
    subgoal for sp
      by (intro exI [of _ sp])
        (simp add: get_def clock_examples iso8601_2023_11_14 iso8601_2023_11_13)
    done
  have second: "\<exists>sp. searchEvents_params world_up [(''limit'', JNum 5)] = Inr (JObj sp)
      \<and> get sp ''filter'' = JStr []
      \<and> get sp ''limit'' = JNum 5"
    using search_events_body [OF tv, of "[(''limit'', JNum 5)]" "[]"]
    apply (elim exE)
    subgoal for sp
      by (intro exI [of _ sp]) (simp add: get_def)
    done
  from first second show ?thesis by blast
qed

subsection \<open>The payload of search_assets\<close>

text \<open>
  C6. Every call of \<open>search_assets\<close> with an argument object issues one POST to the
  asset-search path whose payload has \<open>limit\<close> 50 and the query; it has no \<open>assetType\<close>
  when the argument is absent or \<open>'all'\<close>, and the argument itself as \<open>assetType\<close>
  otherwise. The payload depends on no argument but \<open>query\<close> and \<open>assetType\<close>: a \<open>limit\<close>
  among the arguments changes nothing.
\<close>

theorem search_assets_payload:
  "searchAssets_request (Some a) hdrs
     = Inr \<lparr>method = ''POST'', url = ''https://api.eu.exabeam.cloud/assets/v1/search'',
            params = JUndefined, payload = searchAssets_params a, headers = hdrs\<rparr>
   \<and> snd (searchAssets w (Some a) hdrs)
     = [Http \<lparr>method = ''POST'', url = ''https://api.eu.exabeam.cloud/assets/v1/search'',
              params = JUndefined, payload = searchAssets_params a, headers = hdrs\<rparr>]
   \<and> searchAssets_params a
     = JObj ([(''query'', get a ''query''), (''limit'', JNum 50)]
             @ (if get a ''assetType'' = JUndefined \<or> get a ''assetType'' = JStr ''all'' then []
                else [(''assetType'', get a ''assetType'')]))
   \<and> (\<forall>b. get b ''query'' = get a ''query'' \<and> get b ''assetType'' = get a ''assetType'' \<longrightarrow>
         searchAssets_params b = searchAssets_params a)"
  by (simp add: searchAssets_request_def searchAssets_def respond_events destructure_def
      searchAssets_params_def default_to_def apiBaseUrl_def Let_def)

theorem search_assets_payload_witness:
  "searchAssets_params [(''query'', JStr ''web''), (''assetType'', JStr ''server''), (''limit'', JNum 500)]
     = JObj [(''query'', JStr ''web''), (''limit'', JNum 50), (''assetType'', JStr ''server'')]
   \<and> searchAssets_params [(''query'', JStr ''web''), (''assetType'', JStr ''all''), (''limit'', JNum 500)]
     = JObj [(''query'', JStr ''web''), (''limit'', JNum 50)]
   \<and> searchAssets_params [(''query'', JStr ''web''), (''limit'', JNum 500)]
     = searchAssets_params [(''query'', JStr ''web'')]"
  using search_assets_payload
      [of "[(''query'', JStr ''web''), (''assetType'', JStr ''server''), (''limit'', JNum 500)]"]
    search_assets_payload
      [of "[(''query'', JStr ''web''), (''assetType'', JStr ''all''), (''limit'', JNum 500)]"]
    search_assets_payload
      [of "[(''query'', JStr ''web'')]", THEN conjunct2, THEN conjunct2, THEN conjunct2,
       THEN spec, of "[(''query'', JStr ''web''), (''limit'', JNum 500)]"]
  by (simp add: get_def)

subsection \<open>The time window of get_notable_events\<close>

text \<open>
  With an empty argument object, on a host whose offset from UTC is fixed, the request
  carries \<open>minSeverity\<close> 2, \<open>endTime\<close> is the first reading of the clock and \<open>startTime\<close>
  is 24 hours before the second.
\<close>

lemma notable_events_defaults_fixed_offset:
  assumes "\<And>t. LocalTZA_utc w t = off" "\<And>t. LocalTZA_local w t = off"
    and "time_value (clock w 0)" "time_value (clock w 1)"
    and "time_value (clock w 1 - 24 * msPerHour)"
  shows "getNotableEvents_request w (Some []) hdrs
     = Inr \<lparr>method = ''GET'', url = ''https://api.eu.exabeam.cloud/notable-events/v1/events'',
            params = JObj [(''minSeverity'', JNum 2),
                           (''startTime'', JStr (iso8601 (clock w 1 - 24 * msPerHour))),
                           (''endTime'', JStr (iso8601 (clock w 0)))],
            payload = JUndefined, headers = hdrs\<rparr>"
proof -
  have u: "UTC w (LocalTime w (clock w 1) - 24 * msPerHour) = clock w 1 - 24 * msPerHour"
    by (simp add: UTC_def LocalTime_def assms(1,2))
  have n: "ToNumber (default_to (JNum 24) (get [] ''hours'')) = Some 24"
    by (simp add: get_def default_to_def)
  have m: "member severityMap (default_to (JStr ''medium'') (get [] ''severity'')) = JNum 2"
    by (simp add: get_def default_to_def member_def severityMap_def)
  from getNotableEvents_request_eq [OF assms(3,4) n, of hdrs] assms(5) u m
  show ?thesis by simp
qed

text \<open>
  C7. With an empty argument object the request carries \<open>minSeverity\<close> 2, and \<open>endTime\<close>
  is the reading of the clock. \<open>startTime\<close> is not 24 hours before it on every host:
  \<open>setHours\<close> moves the local time, not the time value. On a host on Central European
  time, a call at 2024-03-31T12:00:00Z, the day the clocks went forward, asks for the
  window that starts at 2024-03-30T13:00:00Z, which is 23 hours before the call; 24 hours
  before the call is 2024-03-30T12:00:00Z.
\<close>

theorem notable_events_window_dst:
  "getNotableEvents_request world_berlin (Some []) []
     = Inr \<lparr>method = ''GET'', url = ''https://api.eu.exabeam.cloud/notable-events/v1/events'',
            params = JObj [(''minSeverity'', JNum 2),
                           (''startTime'', JStr ''2024-03-30T13:00:00.000Z''),
                           (''endTime'', JStr ''2024-03-31T12:00:00.000Z'')],
            payload = JUndefined, headers = []\<rparr>
   \<and> iso8601 (clock world_berlin 0) = ''2024-03-31T12:00:00.000Z''
   \<and> iso8601 (clock world_berlin 0 - 23 * msPerHour) = ''2024-03-30T13:00:00.000Z''
   \<and> iso8601 (clock world_berlin 0 - 24 * msPerHour) = ''2024-03-30T12:00:00.000Z''"
proof -
  have n: "ToNumber (default_to (JNum 24) (get [] ''hours'')) = Some 24"
    by (simp add: get_def default_to_def)
  have l: "LocalTime world_berlin 1711886400000 = 1711893600000"
    by (simp add: LocalTime_def world_berlin_def)
  have u: "UTC world_berlin 1711807200000 = 1711803600000"
    by (simp add: UTC_def world_berlin_def)
  have "getNotableEvents_request world_berlin (Some []) []
     = Inr \<lparr>method = ''GET'', url = ''https://api.eu.exabeam.cloud/notable-events/v1/events'',
            params = JObj [(''minSeverity'',
                              member severityMap (default_to (JStr ''medium'') (get [] ''severity''))),
                           (''startTime'', JStr (iso8601 (UTC world_berlin
                              (LocalTime world_berlin (clock world_berlin 1) - 24 * msPerHour)))),
                           (''endTime'', JStr (iso8601 (clock world_berlin 0)))],
            payload = JUndefined, headers = []\<rparr>"
    by (rule getNotableEvents_request_eq [OF _ _ n])
       (simp_all add: clock_examples l u msPerHour_def time_value_examples)
  then show ?thesis
    by (simp add: clock_examples l u iso8601_2024_03_31 iso8601_2024_03_30_13h
        iso8601_2024_03_30_12h get_def default_to_def member_def severityMap_def msPerHour_def)
qed

text \<open>
  A call without an \<open>arguments\<close> member reaches the handler with \<open>undefined\<close>; the
  destructuring throws, and no request is built.
\<close>

lemma notable_events_without_arguments:
  "getNotableEvents_request w None hdrs
     = Inl (TypeError (''Cannot destructure property '' @ [CHR 0x27] @ ''severity'' @ [CHR 0x27]
              @ '' of '' @ [CHR 0x27] @ ''args'' @ [CHR 0x27] @ '' as it is undefined.''))"
  by (simp add: getNotableEvents_request_def destructure_def)

subsection \<open>The constructor\<close>

lemma truthy_env_val: "truthy (env_val v) = present v"
  by (simp add: env_val_def present_def split: option.splits)

lemma constructor_cases:
  "constructor e =
     (if \<not> present (EXABEAM_URL e)
        then Inl (Error ''EXABEAM_URL environment variable is required'')
      else if \<not> present (EXABEAM_API_KEY e) \<or> \<not> present (EXABEAM_API_SECRET e)
        then Inl (Error ''Both EXABEAM_API_KEY and EXABEAM_API_SECRET environment variables are required'')
      else Inr \<lparr>baseUrl = EXABEAM_URL e, apiKey = EXABEAM_API_KEY e,
                apiSecret = EXABEAM_API_SECRET e\<rparr>)"
  by (simp add: constructor_def truthy_env_val Let_def)

lemma not_present_None: "\<not> present None"
  by (simp add: present_def)

text \<open>
  C8, as stated, fails where the endpoint and the key are both missing: the constructor
  throws at its first check, and the error names the endpoint, not the key and the secret.
\<close>

theorem constructor_counterexample:
  "constructor \<lparr>EXABEAM_URL = None, EXABEAM_API_KEY = None, EXABEAM_API_SECRET = Some ''secret''\<rparr>
     = Inl (Error ''EXABEAM_URL environment variable is required'')
   \<and> constructor \<lparr>EXABEAM_URL = None, EXABEAM_API_KEY = None, EXABEAM_API_SECRET = Some ''secret''\<rparr>
     \<noteq> Inl (Error ''Both EXABEAM_API_KEY and EXABEAM_API_SECRET environment variables are required'')"
  by (simp add: constructor_def env_val_def)

text \<open>
  C8, amended. The constructor throws the error that names \<open>EXABEAM_URL\<close> whenever the
  endpoint is absent (or empty); when the endpoint is present, it throws the error that
  names both \<open>EXABEAM_API_KEY\<close> and \<open>EXABEAM_API_SECRET\<close> whenever either of them is
  absent (or empty); and it returns only when all three are present, with a configuration
  that holds all three: there is no partial success.
\<close>

theorem constructor_fails_or_complete:
  "(EXABEAM_URL e = None \<longrightarrow>
      constructor e = Inl (Error ''EXABEAM_URL environment variable is required''))
   \<and> (\<not> present (EXABEAM_URL e) \<longrightarrow>
      constructor e = Inl (Error ''EXABEAM_URL environment variable is required''))
   \<and> (present (EXABEAM_URL e) \<and> (EXABEAM_API_KEY e = None \<or> EXABEAM_API_SECRET e = None) \<longrightarrow>
      constructor e = Inl (Error
        ''Both EXABEAM_API_KEY and EXABEAM_API_SECRET environment variables are required''))
   \<and> (present (EXABEAM_URL e)
        \<and> (\<not> present (EXABEAM_API_KEY e) \<or> \<not> present (EXABEAM_API_SECRET e)) \<longrightarrow>
      constructor e = Inl (Error
        ''Both EXABEAM_API_KEY and EXABEAM_API_SECRET environment variables are required''))
   \<and> (\<forall>cfg. constructor e = Inr cfg \<longrightarrow>
        present (EXABEAM_URL e) \<and> present (EXABEAM_API_KEY e) \<and> present (EXABEAM_API_SECRET e)
        \<and> cfg = \<lparr>baseUrl = EXABEAM_URL e, apiKey = EXABEAM_API_KEY e,
                  apiSecret = EXABEAM_API_SECRET e\<rparr>)
   \<and> (present (EXABEAM_URL e) \<and> present (EXABEAM_API_KEY e) \<and> present (EXABEAM_API_SECRET e) \<longrightarrow>
        constructor e = Inr \<lparr>baseUrl = EXABEAM_URL e, apiKey = EXABEAM_API_KEY e,
                             apiSecret = EXABEAM_API_SECRET e\<rparr>)"
proof (intro conjI allI impI)
  assume "EXABEAM_URL e = None"
  then show "constructor e = Inl (Error ''EXABEAM_URL environment variable is required'')"
    by (simp add: constructor_cases not_present_None)
next
  assume "\<not> present (EXABEAM_URL e)"
  then show "constructor e = Inl (Error ''EXABEAM_URL environment variable is required'')"
    by (simp add: constructor_cases)
next
  assume a: "present (EXABEAM_URL e) \<and> (EXABEAM_API_KEY e = None \<or> EXABEAM_API_SECRET e = None)"
  then have "\<not> present (EXABEAM_API_KEY e) \<or> \<not> present (EXABEAM_API_SECRET e)"
    using not_present_None by metis
  with a show "constructor e = Inl (Error
        ''Both EXABEAM_API_KEY and EXABEAM_API_SECRET environment variables are required'')"
    by (simp add: constructor_cases)
next
  assume "present (EXABEAM_URL e)
        \<and> (\<not> present (EXABEAM_API_KEY e) \<or> \<not> present (EXABEAM_API_SECRET e))"
  then show "constructor e = Inl (Error
        ''Both EXABEAM_API_KEY and EXABEAM_API_SECRET environment variables are required'')"
    by (simp add: constructor_cases)
next
  fix cfg
  assume c: "constructor e = Inr cfg"
  then show "present (EXABEAM_URL e)" "present (EXABEAM_API_KEY e)" "present (EXABEAM_API_SECRET e)"
    "cfg = \<lparr>baseUrl = EXABEAM_URL e, apiKey = EXABEAM_API_KEY e, apiSecret = EXABEAM_API_SECRET e\<rparr>"
    by (simp_all add: constructor_cases split: if_splits)
next
  assume "present (EXABEAM_URL e) \<and> present (EXABEAM_API_KEY e) \<and> present (EXABEAM_API_SECRET e)"
  then show "constructor e = Inr \<lparr>baseUrl = EXABEAM_URL e, apiKey = EXABEAM_API_KEY e,
                             apiSecret = EXABEAM_API_SECRET e\<rparr>"
    by (simp add: constructor_cases)
qed

theorem constructor_fails_or_complete_witness:
  "constructor \<lparr>EXABEAM_URL = None, EXABEAM_API_KEY = Some ''key'', EXABEAM_API_SECRET = Some ''secret''\<rparr>
     = Inl (Error ''EXABEAM_URL environment variable is required'')
   \<and> constructor \<lparr>EXABEAM_URL = Some [], EXABEAM_API_KEY = Some ''key'',
                   EXABEAM_API_SECRET = Some ''secret''\<rparr>
     = Inl (Error ''EXABEAM_URL environment variable is required'')
   \<and> constructor \<lparr>EXABEAM_URL = Some ''https://exabeam.example'', EXABEAM_API_KEY = None,
                   EXABEAM_API_SECRET = Some ''secret''\<rparr>
     = Inl (Error ''Both EXABEAM_API_KEY and EXABEAM_API_SECRET environment variables are required'')
   \<and> constructor \<lparr>EXABEAM_URL = Some ''https://exabeam.example'', EXABEAM_API_KEY = Some ''key'',
                   EXABEAM_API_SECRET = None\<rparr>
     = Inl (Error ''Both EXABEAM_API_KEY and EXABEAM_API_SECRET environment variables are required'')
   \<and> constructor \<lparr>EXABEAM_URL = Some ''https://exabeam.example'', EXABEAM_API_KEY = Some [],
                   EXABEAM_API_SECRET = Some ''secret''\<rparr>
     = Inl (Error ''Both EXABEAM_API_KEY and EXABEAM_API_SECRET environment variables are required'')
   \<and> constructor \<lparr>EXABEAM_URL = Some ''https://exabeam.example'', EXABEAM_API_KEY = Some ''key'',
                   EXABEAM_API_SECRET = Some ''secret''\<rparr>
     = Inr example_config
   \<and> present (EXABEAM_API_SECRET \<lparr>EXABEAM_URL = Some ''https://exabeam.example'',
                   EXABEAM_API_KEY = Some ''key'', EXABEAM_API_SECRET = Some ''secret''\<rparr>)"
proof (intro conjI)
  show "constructor \<lparr>EXABEAM_URL = None, EXABEAM_API_KEY = Some ''key'', EXABEAM_API_SECRET = Some ''secret''\<rparr>
     = Inl (Error ''EXABEAM_URL environment variable is required'')"
    using constructor_fails_or_complete
      [of "\<lparr>EXABEAM_URL = None, EXABEAM_API_KEY = Some ''key'', EXABEAM_API_SECRET = Some ''secret''\<rparr>",
       THEN conjunct1]
    by simp
  show "constructor \<lparr>EXABEAM_URL = Some [], EXABEAM_API_KEY = Some ''key'',
                   EXABEAM_API_SECRET = Some ''secret''\<rparr>
     = Inl (Error ''EXABEAM_URL environment variable is required'')"
    using constructor_fails_or_complete
      [of "\<lparr>EXABEAM_URL = Some [], EXABEAM_API_KEY = Some ''key'',
            EXABEAM_API_SECRET = Some ''secret''\<rparr>", THEN conjunct2, THEN conjunct1]
    by (simp add: present_def)
  show "constructor \<lparr>EXABEAM_URL = Some ''https://exabeam.example'', EXABEAM_API_KEY = None,
                   EXABEAM_API_SECRET = Some ''secret''\<rparr>
     = Inl (Error ''Both EXABEAM_API_KEY and EXABEAM_API_SECRET environment variables are required'')"
    using constructor_fails_or_complete
      [of "\<lparr>EXABEAM_URL = Some ''https://exabeam.example'', EXABEAM_API_KEY = None,
            EXABEAM_API_SECRET = Some ''secret''\<rparr>", THEN conjunct2, THEN conjunct2, THEN conjunct1]
    by (simp add: present_def)
  show "constructor \<lparr>EXABEAM_URL = Some ''https://exabeam.example'', EXABEAM_API_KEY = Some ''key'',
                   EXABEAM_API_SECRET = None\<rparr>
     = Inl (Error ''Both EXABEAM_API_KEY and EXABEAM_API_SECRET environment variables are required'')"
    using constructor_fails_or_complete
      [of "\<lparr>EXABEAM_URL = Some ''https://exabeam.example'', EXABEAM_API_KEY = Some ''key'',
            EXABEAM_API_SECRET = None\<rparr>", THEN conjunct2, THEN conjunct2, THEN conjunct1]
    by (simp add: present_def)
  show "constructor \<lparr>EXABEAM_URL = Some ''https://exabeam.example'', EXABEAM_API_KEY = Some [],
                   EXABEAM_API_SECRET = Some ''secret''\<rparr>
     = Inl (Error ''Both EXABEAM_API_KEY and EXABEAM_API_SECRET environment variables are required'')"
    using constructor_fails_or_complete
      [of "\<lparr>EXABEAM_URL = Some ''https://exabeam.example'', EXABEAM_API_KEY = Some [],
            EXABEAM_API_SECRET = Some ''secret''\<rparr>",
       THEN conjunct2, THEN conjunct2, THEN conjunct2, THEN conjunct1]
    by (simp add: present_def)
  have ok: "constructor \<lparr>EXABEAM_URL = Some ''https://exabeam.example'', EXABEAM_API_KEY = Some ''key'',
                   EXABEAM_API_SECRET = Some ''secret''\<rparr>
     = Inr example_config"
    using constructor_fails_or_complete
      [of "\<lparr>EXABEAM_URL = Some ''https://exabeam.example'', EXABEAM_API_KEY = Some ''key'',
            EXABEAM_API_SECRET = Some ''secret''\<rparr>",
       THEN conjunct2, THEN conjunct2, THEN conjunct2, THEN conjunct2, THEN conjunct2]
    by (simp add: present_def example_config_def)
  then show "constructor \<lparr>EXABEAM_URL = Some ''https://exabeam.example'', EXABEAM_API_KEY = Some ''key'',
                   EXABEAM_API_SECRET = Some ''secret''\<rparr>
     = Inr example_config" .
  show "present (EXABEAM_API_SECRET \<lparr>EXABEAM_URL = Some ''https://exabeam.example'',
                   EXABEAM_API_KEY = Some ''key'', EXABEAM_API_SECRET = Some ''secret''\<rparr>)"
    using constructor_fails_or_complete
      [of "\<lparr>EXABEAM_URL = Some ''https://exabeam.example'', EXABEAM_API_KEY = Some ''key'',
            EXABEAM_API_SECRET = Some ''secret''\<rparr>",
       THEN conjunct2, THEN conjunct2, THEN conjunct2, THEN conjunct2, THEN conjunct1,
       THEN spec, of example_config, THEN mp, OF ok]
    by blast
qed
subsection \<open>The severity of get_notable_events\<close>





subsection \<open>The user name in the URL\<close>

lemma takeWhile_append_stop:
  "\<forall>c \<in> set p. P c \<Longrightarrow> \<not> P x \<Longrightarrow> takeWhile P (p @ x # q) = p"
  by (induction p) auto

lemma url_path_stop:
  assumes "CHR ''?'' \<notin> set p" "CHR ''#'' \<notin> set p" "x = CHR ''?'' \<or> x = CHR ''#''"
  shows "url_path (p @ x # q) = p"
  unfolding url_path_def using assms by (intro takeWhile_append_stop) auto

lemma url_path_user:
  assumes "CHR ''?'' \<notin> set p" "CHR ''#'' \<notin> set p" "x = CHR ''?'' \<or> x = CHR ''#''"
  shows "url_path (''https://api.eu.exabeam.cloud/users/v1/'' @ (p @ x # q) @ rest)
           = ''https://api.eu.exabeam.cloud/users/v1/'' @ p"
proof -
  have "url_path ((''https://api.eu.exabeam.cloud/users/v1/'' @ p) @ x # (q @ rest))
           = ''https://api.eu.exabeam.cloud/users/v1/'' @ p"
    using assms by (intro url_path_stop) auto
  then show ?thesis by simp
qed

text \<open>
  C10. For every user name that is a string, the URL of \<open>get_user_timeline\<close> and the URL
  of \<open>get_user_risk_score\<close> are the base URL, \<open>/users/v1/\<close>, the user name as it is, and
  the suffix, and these are the URLs of the requests the handlers build. Nothing is
  escaped: every \<open>/\<close> of the user name is one more \<open>/\<close> in the URL, and at the first
  \<open>?\<close> or \<open>#\<close> of the user name the path of the URL ends, so that the rest of the user
  name and the suffix are no longer part of the path.
\<close>

theorem username_verbatim_in_url:
  "getUserTimeline_url (JStr u) = ''https://api.eu.exabeam.cloud'' @ ''/users/v1/'' @ u @ ''/timeline''
   \<and> getUserRiskScore_url (JStr u)
       = ''https://api.eu.exabeam.cloud'' @ ''/users/v1/'' @ u @ ''/risk-score''
   \<and> (\<forall>a hdrs. get a ''username'' = JStr u \<longrightarrow>
        getUserRiskScore_request (Some a) hdrs
          = Inr \<lparr>method = ''GET'',
                 url = ''https://api.eu.exabeam.cloud'' @ ''/users/v1/'' @ u @ ''/risk-score'',
                 params = JUndefined, payload = JUndefined, headers = hdrs\<rparr>)
   \<and> (\<forall>w a hdrs req. get a ''username'' = JStr u
          \<and> getUserTimeline_request w (Some a) hdrs = Inr req \<longrightarrow>
        url req = ''https://api.eu.exabeam.cloud'' @ ''/users/v1/'' @ u @ ''/timeline'')
   \<and> count_list (getUserTimeline_url (JStr u)) (CHR ''/'') = 6 + count_list u (CHR ''/'')
   \<and> count_list (getUserRiskScore_url (JStr u)) (CHR ''/'') = 6 + count_list u (CHR ''/'')
   \<and> (\<forall>p x q. u = p @ x # q \<and> (x = CHR ''?'' \<or> x = CHR ''#'')
          \<and> CHR ''?'' \<notin> set p \<and> CHR ''#'' \<notin> set p \<longrightarrow>
        url_path (getUserTimeline_url (JStr u)) = ''https://api.eu.exabeam.cloud/users/v1/'' @ p
        \<and> url_path (getUserRiskScore_url (JStr u)) = ''https://api.eu.exabeam.cloud/users/v1/'' @ p)"
proof (intro conjI allI impI)
  show "getUserTimeline_url (JStr u) = ''https://api.eu.exabeam.cloud'' @ ''/users/v1/'' @ u @ ''/timeline''"
    by (simp add: user_urls)
  show "getUserRiskScore_url (JStr u)
       = ''https://api.eu.exabeam.cloud'' @ ''/users/v1/'' @ u @ ''/risk-score''"
    by (simp add: user_urls)
  show "count_list (getUserTimeline_url (JStr u)) (CHR ''/'') = 6 + count_list u (CHR ''/'')"
    by (simp add: user_urls)
  show "count_list (getUserRiskScore_url (JStr u)) (CHR ''/'') = 6 + count_list u (CHR ''/'')"
    by (simp add: user_urls)
next
  fix a hdrs
  assume "get a ''username'' = JStr u"
  then show "getUserRiskScore_request (Some a) hdrs
          = Inr \<lparr>method = ''GET'',
                 url = ''https://api.eu.exabeam.cloud'' @ ''/users/v1/'' @ u @ ''/risk-score'',
                 params = JUndefined, payload = JUndefined, headers = hdrs\<rparr>"
    by (simp add: getUserRiskScore_request_def destructure_def user_urls)
next
  fix w a hdrs req
  assume "get a ''username'' = JStr u \<and> getUserTimeline_request w (Some a) hdrs = Inr req"
  then show "url req = ''https://api.eu.exabeam.cloud'' @ ''/users/v1/'' @ u @ ''/timeline''"
    using getUserTimeline_request_url [of w a hdrs req] by (simp add: user_urls)
next
  fix p x q
  assume a: "u = p @ x # q \<and> (x = CHR ''?'' \<or> x = CHR ''#'')
          \<and> CHR ''?'' \<notin> set p \<and> CHR ''#'' \<notin> set p"
  then show "url_path (getUserTimeline_url (JStr u)) = ''https://api.eu.exabeam.cloud/users/v1/'' @ p"
    using url_path_user [of p x q "''/timeline''"] by (simp only: user_urls) blast
  from a show "url_path (getUserRiskScore_url (JStr u)) = ''https://api.eu.exabeam.cloud/users/v1/'' @ p"
    using url_path_user [of p x q "''/risk-score''"] by (simp only: user_urls) blast
qed

theorem username_verbatim_in_url_witness:
  "getUserRiskScore_request (Some [(''username'', JStr ''jdoe/../admin?x=1'')]) []
      = Inr \<lparr>method = ''GET'',
             url = ''https://api.eu.exabeam.cloud/users/v1/jdoe/../admin?x=1/risk-score'',
             params = JUndefined, payload = JUndefined, headers = []\<rparr>
   \<and> (\<exists>req. getUserTimeline_request world_up (Some [(''username'', JStr ''jdoe/../admin?x=1'')]) []
            = Inr req
         \<and> url req = ''https://api.eu.exabeam.cloud/users/v1/jdoe/../admin?x=1/timeline'')
   \<and> url_path (getUserRiskScore_url (JStr ''jdoe/../admin?x=1''))
      = ''https://api.eu.exabeam.cloud/users/v1/jdoe/../admin''
   \<and> url_path (getUserTimeline_url (JStr ''jdoe/../admin?x=1''))
      = ''https://api.eu.exabeam.cloud/users/v1/jdoe/../admin''
   \<and> count_list (getUserTimeline_url (JStr ''jdoe/../admin?x=1'')) (CHR ''/'') = 8"
proof -
  note t = username_verbatim_in_url [of "''jdoe/../admin?x=1''"]
  have r: "getUserRiskScore_request (Some [(''username'', JStr ''jdoe/../admin?x=1'')]) []
      = Inr \<lparr>method = ''GET'',
             url = ''https://api.eu.exabeam.cloud/users/v1/jdoe/../admin?x=1/risk-score'',
             params = JUndefined, payload = JUndefined, headers = []\<rparr>"
    using t [THEN conjunct2, THEN conjunct2, THEN conjunct1, rule_format,
        of "[(''username'', JStr ''jdoe/../admin?x=1'')]" "[]"]
    by (simp add: get_def)
  obtain req where req:
    "getUserTimeline_request world_up (Some [(''username'', JStr ''jdoe/../admin?x=1'')]) [] = Inr req"
    using getUserTimeline_request_world_up [of "''jdoe/../admin?x=1''" "[]"] by blast
  have g: "get [(''username'', JStr ''jdoe/../admin?x=1'')] ''username'' = JStr ''jdoe/../admin?x=1''"
    by (simp add: get_def)
  have "url req = ''https://api.eu.exabeam.cloud'' @ ''/users/v1/'' @ ''jdoe/../admin?x=1'' @ ''/timeline''"
    using t [THEN conjunct2, THEN conjunct2, THEN conjunct2, THEN conjunct1, rule_format,
        OF conjI [OF g req]] .
  with req have tl: "\<exists>req.
      getUserTimeline_request world_up (Some [(''username'', JStr ''jdoe/../admin?x=1'')]) [] = Inr req
      \<and> url req = ''https://api.eu.exabeam.cloud/users/v1/jdoe/../admin?x=1/timeline''"
    by (intro exI [of _ req]) simp
  have p: "url_path (getUserTimeline_url (JStr ''jdoe/../admin?x=1''))
      = ''https://api.eu.exabeam.cloud/users/v1/jdoe/../admin''
     \<and> url_path (getUserRiskScore_url (JStr ''jdoe/../admin?x=1''))
      = ''https://api.eu.exabeam.cloud/users/v1/jdoe/../admin''"
    using t [THEN conjunct2, THEN conjunct2, THEN conjunct2, THEN conjunct2, THEN conjunct2,
        THEN conjunct2, rule_format, of "''jdoe/../admin''" "CHR ''?''" "''x=1''"]
    by simp
  have c: "count_list (getUserTimeline_url (JStr ''jdoe/../admin?x=1'')) (CHR ''/'') = 8"
    using t [THEN conjunct2, THEN conjunct2, THEN conjunct2, THEN conjunct2, THEN conjunct1]
    by simp
  from r tl p c show ?thesis by blast
qed
end
